theory Spec2Isabelle
  imports Main "HOL-Library.Product_Lexorder"
begin

section \<open>Calendar dates\<close>

text \<open>
  The program works on Python \<^verbatim>\<open>datetime.date\<close> values. A date is a triple of
  integers; the constructor \<^verbatim>\<open>date(year, month, day)\<close> raises \<^verbatim>\<open>ValueError\<close>
  unless \<open>1 \<le> year \<le> 9999\<close>, \<open>1 \<le> month \<le> 12\<close> and the day exists in that month.
\<close>

record date =
  year :: int
  month :: int
  day :: int

datatype py_exception =
    ValueError
  | TypeError
  | ZeroDivisionError
  | DivisionByZero
  | InvalidOperation
  | DBAPIError

definition MINYEAR :: int where
  "MINYEAR = 1"

definition MAXYEAR :: int where
  "MAXYEAR = 9999"

definition is_leap :: "int \<Rightarrow> bool" where
  "is_leap y = (y mod 4 = 0 \<and> (y mod 100 \<noteq> 0 \<or> y mod 400 = 0))"

definition days_in_month :: "int \<Rightarrow> int \<Rightarrow> int" where
  "days_in_month y m =
     (if m = 2 then (if is_leap y then 29 else 28)
      else if m = 4 \<or> m = 6 \<or> m = 9 \<or> m = 11 then 30
      else 31)"

definition valid_date :: "date \<Rightarrow> bool" where
  "valid_date d =
     (MINYEAR \<le> year d \<and> year d \<le> MAXYEAR \<and>
      1 \<le> month d \<and> month d \<le> 12 \<and>
      1 \<le> day d \<and> day d \<le> days_in_month (year d) (month d))"

text \<open>The constructor call \<^verbatim>\<open>date(y, m, d)\<close>.\<close>

definition mk_date :: "int \<Rightarrow> int \<Rightarrow> int \<Rightarrow> py_exception + date" where
  "mk_date y m d =
     (let r = \<lparr>year = y, month = m, day = d\<rparr>
      in if valid_date r then Inr r else Inl ValueError)"

text \<open>Dates compare as the triples (year, month, day), in lexicographic order.\<close>

definition date_key :: "date \<Rightarrow> int \<times> int \<times> int" where
  "date_key d = (year d, month d, day d)"

definition date_le :: "date \<Rightarrow> date \<Rightarrow> bool" where
  "date_le a b = (date_key a \<le> date_key b)"

definition date_lt :: "date \<Rightarrow> date \<Rightarrow> bool" where
  "date_lt a b = (date_key a < date_key b)"

text \<open>
  \<^verbatim>\<open>date.toordinal()\<close>: the proleptic Gregorian ordinal, day 1 being 0001-01-01.
  The difference of two dates is the difference of their ordinals, and
  \<^verbatim>\<open>(a - b).days\<close> reads it.
\<close>

definition days_before_year :: "int \<Rightarrow> int" where
  "days_before_year y =
     (let p = y - 1 in p * 365 + p div 4 - p div 100 + p div 400)"

definition DAYS_BEFORE_MONTH :: "int list" where
  "DAYS_BEFORE_MONTH = [0, 31, 59, 90, 120, 151, 181, 212, 243, 273, 304, 334]"

definition days_before_month :: "int \<Rightarrow> int \<Rightarrow> int" where
  "days_before_month y m =
     DAYS_BEFORE_MONTH ! nat (m - 1) + (if m > 2 \<and> is_leap y then 1 else 0)"

definition toordinal :: "date \<Rightarrow> int" where
  "toordinal d = days_before_year (year d) + days_before_month (year d) (month d) + day d"

definition date_sub_days :: "date \<Rightarrow> date \<Rightarrow> int" where
  "date_sub_days a b = toordinal a - toordinal b"

section \<open>Month arithmetic\<close>

text \<open>
  \<^verbatim>\<open>incr_month(plan_date)\<close> of \<^verbatim>\<open>database/requests.py\<close>: the month after the
  one of \<open>plan_date\<close>, built with the \<^verbatim>\<open>date\<close> constructor, which may raise.
\<close>

definition incr_month :: "date \<Rightarrow> py_exception + date" where
  "incr_month plan_date =
     (if month plan_date = 12
      then mk_date (year plan_date + 1) 1 1
      else mk_date (year plan_date) (month plan_date + 1) 1)"

section \<open>Strings and numbers\<close>

text \<open>
  A Python string is a sequence of Unicode code points. The two category names the
  program compares against are Cyrillic words, given here by their code points:
  \<open>ISSUANCE\<close> is U+0432 U+0438 U+0434 U+0430 U+0447 U+0430 and
  \<open>COLLECTION\<close> is U+0437 U+0431 U+0456 U+0440.
\<close>

type_synonym ustring = "nat list"

definition ISSUANCE :: ustring where
  "ISSUANCE = [1074, 1080, 1076, 1072, 1095, 1072]"

definition COLLECTION :: ustring where
  "COLLECTION = [1079, 1073, 1110, 1088]"

definition ascii :: "string \<Rightarrow> ustring" where
  "ascii s = map of_char s"

definition endswith :: "ustring \<Rightarrow> ustring \<Rightarrow> bool" where
  "endswith s suffix =
     (length suffix \<le> length s \<and> drop (length s - length suffix) s = suffix)"

text \<open>\<^verbatim>\<open>str.isspace\<close> on one code point, and \<^verbatim>\<open>str.strip()\<close>.\<close>

definition is_space :: "nat \<Rightarrow> bool" where
  "is_space c =
     ((9 \<le> c \<and> c \<le> 13) \<or> (28 \<le> c \<and> c \<le> 32) \<or> c = 133 \<or> c = 160 \<or> c = 5760 \<or>
      (8192 \<le> c \<and> c \<le> 8202) \<or> c = 8232 \<or> c = 8233 \<or> c = 8239 \<or> c = 8287 \<or>
      c = 12288)"

definition strip :: "ustring \<Rightarrow> ustring" where
  "strip s = rev (dropWhile is_space (rev (dropWhile is_space s)))"

text \<open>
  Money is \<^verbatim>\<open>DECIMAL(10, 2)\<close> in the store and \<^verbatim>\<open>Decimal\<close> with exponent \<open>-2\<close> in
  Python: an amount is kept as its number of hundredths. The sum of a plan is the one
  decimal that this program itself writes, and its validation lets a quiet NaN
  through (see \<open>parse_amount\<close> below), so a plan's sum is either a fixed-point
  number or a quiet NaN with its sign and payload (payload 0 is none).
\<close>

datatype decimal = Fixed int | QNaN bool nat

text \<open>
  The numbers of the arithmetic. The only Python integers that enter it are the
  literals \<open>0\<close> and \<open>1\<close> of the source (initial values and the defaults of
  \<^verbatim>\<open>x or 0\<close>, \<^verbatim>\<open>x or 1\<close>); they are kept apart from the decimals, because Python
  divides two integers as floats.
\<close>

datatype pynum = Int0 | Int1 | Dec int | DecNaN bool nat

definition num_of :: "decimal \<Rightarrow> pynum" where
  "num_of x = (case x of Fixed c \<Rightarrow> Dec c | QNaN neg payload \<Rightarrow> DecNaN neg payload)"

text \<open>The value of a number that is not a NaN, in hundredths.\<close>

fun hundredths :: "pynum \<Rightarrow> int" where
  "hundredths Int0 = 0"
| "hundredths Int1 = 100"
| "hundredths (Dec c) = c"

text \<open>Truth of a number: every zero is falsy, a NaN is truthy.\<close>

fun is_zero :: "pynum \<Rightarrow> bool" where
  "is_zero Int0 = True"
| "is_zero Int1 = False"
| "is_zero (Dec c) = (c = 0)"
| "is_zero (DecNaN neg payload) = False"

text \<open>
  \<^verbatim>\<open>x or 0\<close> for \<open>x\<close> a fixed-point sum of the ledger or \<^verbatim>\<open>None\<close>, and \<^verbatim>\<open>x or 1\<close>
  for \<open>x\<close> a number: \<^verbatim>\<open>None\<close> and every zero are falsy.
\<close>

definition or_0 :: "int option \<Rightarrow> pynum" where
  "or_0 x = (case x of None \<Rightarrow> Int0 | Some c \<Rightarrow> if c = 0 then Int0 else Dec c)"

definition or_1 :: "pynum \<Rightarrow> pynum" where
  "or_1 x = (if is_zero x then Int1 else x)"

text \<open>
  A quiet NaN that comes out of an operation of \<^verbatim>\<open>decimal\<close> keeps its sign, and its
  payload is cut to the 28 digits of the context.
\<close>

definition fix_payload :: "nat \<Rightarrow> nat" where
  "fix_payload payload = payload mod 10 ^ 28"

text \<open>\<^verbatim>\<open>a + b\<close> as the running totals use it: two integers add to an integer only
  when one of them is the literal 0, and a NaN operand is the result.\<close>

fun py_add :: "pynum \<Rightarrow> pynum \<Rightarrow> pynum" where
  "py_add (DecNaN neg payload) b = DecNaN neg (fix_payload payload)"
| "py_add a (DecNaN neg payload) = DecNaN neg (fix_payload payload)"
| "py_add Int0 b = b"
| "py_add a Int0 = a"
| "py_add a b = Dec (hundredths a + hundredths b)"

text \<open>Division of magnitudes, rounded half to even (the default of \<^verbatim>\<open>decimal\<close>).\<close>

definition round_half_even_div :: "nat \<Rightarrow> nat \<Rightarrow> nat" where
  "round_half_even_div n d =
     (let q = n div d; r = n mod d
      in if 2 * r > d \<or> (2 * r = d \<and> odd q) then q + 1 else q)"

text \<open>The decimal digits of a natural number, as \<^verbatim>\<open>str\<close> prints them.\<close>

definition digit_char :: "nat \<Rightarrow> char" where
  "digit_char n = ''0123456789'' ! n"

function str_nat :: "nat \<Rightarrow> string" where
  "str_nat n =
     (if n < 10 then [digit_char n] else str_nat (n div 10) @ [digit_char (n mod 10)])"
  by pat_completeness auto
termination
  by (relation "measure id") auto

declare str_nat.simps [simp del]

text \<open>
  \<^verbatim>\<open>str\<close> of a decimal with exponent \<open>-2\<close>, given by its sign and the magnitude of
  its hundredths: the sign, the integer part, a point, two digits.
\<close>

definition str_dec2 :: "bool \<Rightarrow> nat \<Rightarrow> string" where
  "str_dec2 neg h =
     (if neg then ''-'' else []) @ str_nat (h div 100) @ ''.'' @
     [digit_char (h mod 100 div 10), digit_char (h mod 10)]"

text \<open>\<^verbatim>\<open>str\<close> of a quiet NaN: the sign, \<open>NaN\<close>, and the payload if there is one.\<close>

definition str_nan :: "bool \<Rightarrow> nat \<Rightarrow> string" where
  "str_nan neg payload =
     (if neg then ''-'' else []) @ ''NaN'' @ (if payload = 0 then [] else str_nat payload)"

text \<open>
  \<^verbatim>\<open>str(round(x * 100 / y, 2)) + "%"\<close>. A quiet NaN operand, the left one first, is
  the result of the product, of the quotient and of \<^verbatim>\<open>round\<close>, and nothing is raised.
  Two integers divide as floats: a zero divisor raises \<^verbatim>\<open>ZeroDivisionError\<close>, and
  the quotients \<open>0.0\<close> and \<open>100.0\<close> print with one decimal. Otherwise the quotient is
  a decimal: a zero divisor raises \<^verbatim>\<open>decimal.InvalidOperation\<close> for \<open>0 / 0\<close> and
  \<^verbatim>\<open>decimal.DivisionByZero\<close> otherwise, the sign of the quotient is the exclusive or
  of the operands' signs, and \<^verbatim>\<open>round\<close> quantizes to two places, half to even.
  The context precision of 28 significant digits is not modelled for numbers: the
  quotient is rounded once, from its exact value.
\<close>

fun percent_str :: "pynum \<Rightarrow> pynum \<Rightarrow> py_exception + string" where
  "percent_str (DecNaN neg payload) y = Inr (str_nan neg (fix_payload payload) @ ''%'')"
| "percent_str x (DecNaN neg payload) = Inr (str_nan neg (fix_payload payload) @ ''%'')"
| "percent_str Int0 Int0 = Inl ZeroDivisionError"
| "percent_str Int1 Int0 = Inl ZeroDivisionError"
| "percent_str Int0 Int1 = Inr ''0.0%''"
| "percent_str Int1 Int1 = Inr ''100.0%''"
| "percent_str x y =
     (let n = hundredths x * 100; d = hundredths y
      in if d = 0 then (if n = 0 then Inl InvalidOperation else Inl DivisionByZero)
         else Inr (str_dec2 ((n < 0) \<noteq> (d < 0))
                     (round_half_even_div (nat \<bar>n\<bar> * 100) (nat \<bar>d\<bar>)) @ ''%''))"

text \<open>
  \<^verbatim>\<open>actual*100/(plan.sum or 1)\<close> where \<open>actual\<close> is what the store's \<^verbatim>\<open>SUM\<close> returned:
  \<^verbatim>\<open>None * 100\<close> raises \<^verbatim>\<open>TypeError\<close> before the divisor is looked at.
\<close>

definition completion_rate :: "int option \<Rightarrow> decimal \<Rightarrow> py_exception + string" where
  "completion_rate actual plan_sum =
     (case actual of
        None \<Rightarrow> Inl TypeError
      | Some a \<Rightarrow> percent_str (Dec a) (or_1 (num_of plan_sum)))"

section \<open>The store\<close>

text \<open>
  The tables of \<^verbatim>\<open>database/models.py\<close> that the engine reads and writes. Amounts
  are in hundredths; a table is the list of its rows in the order the store returns
  them. The store keeps the sum of a plan as the session gave it.
\<close>

record credit =
  credit_id :: int
  credit_user_id :: int
  issuance_date :: date
  return_date :: date
  actual_return_date :: "date option"
  body :: int
  percent :: int

record dictionary =
  dictionary_id :: int
  dictionary_name :: ustring

record plan =
  plan_id :: int
  plan_period :: date
  plan_sum :: decimal
  plan_category_id :: int

record payment =
  payment_id :: int
  payment_sum :: int
  payment_date :: date
  payment_credit_id :: int
  payment_type_id :: int

record db =
  credits :: "credit list"
  dictionaries :: "dictionary list"
  plans :: "plan list"
  payments :: "payment list"

text \<open>SQL \<^verbatim>\<open>SUM\<close> over the selected rows: \<^verbatim>\<open>NULL\<close> (Python \<^verbatim>\<open>None\<close>) when there is none.\<close>

definition sql_sum :: "int list \<Rightarrow> int option" where
  "sql_sum xs = (if xs = [] then None else Some (sum_list xs))"

text \<open>\<^verbatim>\<open>session.scalar\<close> and \<^verbatim>\<open>.first()\<close>: the first selected row, if any.\<close>

definition first_row :: "'a list \<Rightarrow> 'a option" where
  "first_row xs = (case xs of [] \<Rightarrow> None | x # _ \<Rightarrow> Some x)"

subsection \<open>The queries of \<^verbatim>\<open>database/requests.py\<close>\<close>

definition get_credit_by_user_id :: "db \<Rightarrow> int \<Rightarrow> credit list" where
  "get_credit_by_user_id s uid = filter (\<lambda>c. credit_user_id c = uid) (credits s)"

definition get_loan_payment_amount_by_credit_id :: "db \<Rightarrow> int \<Rightarrow> pynum" where
  "get_loan_payment_amount_by_credit_id s cid =
     or_0 (sql_sum (map payment_sum (filter (\<lambda>p. payment_credit_id p = cid) (payments s))))"

definition get_credit_payments_by_type :: "db \<Rightarrow> int \<Rightarrow> int \<Rightarrow> pynum" where
  "get_credit_payments_by_type s cid type_id =
     or_0 (sql_sum (map payment_sum
       (filter (\<lambda>p. payment_type_id p = type_id \<and> payment_credit_id p = cid) (payments s))))"

definition get_category_id_by_name :: "db \<Rightarrow> ustring \<Rightarrow> int option" where
  "get_category_id_by_name s category_name =
     first_row (map dictionary_id
       (filter (\<lambda>d. dictionary_name d = category_name) (dictionaries s)))"

definition get_plan_by_date_and_category :: "db \<Rightarrow> date \<Rightarrow> int \<Rightarrow> plan option" where
  "get_plan_by_date_and_category s period_date category_id =
     first_row (filter (\<lambda>p. plan_period p = period_date \<and> plan_category_id p = category_id)
       (plans s))"

definition get_month_plans :: "db \<Rightarrow> date \<Rightarrow> plan list" where
  "get_month_plans s today_date = filter (\<lambda>p. plan_period p = today_date) (plans s)"

definition get_category_name_by_id :: "db \<Rightarrow> int \<Rightarrow> ustring option" where
  "get_category_name_by_id s category_id =
     first_row (map dictionary_name
       (filter (\<lambda>d. dictionary_id d = category_id) (dictionaries s)))"

definition get_sum_issued_loans :: "db \<Rightarrow> date \<Rightarrow> date \<Rightarrow> int option" where
  "get_sum_issued_loans s period actual_date =
     sql_sum (map body
       (filter (\<lambda>c. date_le period (issuance_date c) \<and> date_le (issuance_date c) actual_date)
         (credits s)))"

definition get_payment_sum :: "db \<Rightarrow> date \<Rightarrow> date \<Rightarrow> int option" where
  "get_payment_sum s period actual_date =
     sql_sum (map payment_sum
       (filter (\<lambda>p. date_le period (payment_date p) \<and> date_le (payment_date p) actual_date)
         (payments s)))"

text \<open>
  The month queries build their upper bound with \<open>incr_month\<close> before the statement
  is sent, so its \<^verbatim>\<open>ValueError\<close> is theirs.
\<close>

definition credits_of_month :: "db \<Rightarrow> date \<Rightarrow> date \<Rightarrow> credit list" where
  "credits_of_month s period next_month =
     filter (\<lambda>c. date_le period (issuance_date c) \<and> date_lt (issuance_date c) next_month)
       (credits s)"

definition payments_of_month :: "db \<Rightarrow> date \<Rightarrow> date \<Rightarrow> payment list" where
  "payments_of_month s plan_date next_month =
     filter (\<lambda>p. date_le plan_date (payment_date p) \<and> date_lt (payment_date p) next_month)
       (payments s)"

definition get_month_sum_issued_loans :: "db \<Rightarrow> date \<Rightarrow> py_exception + int option" where
  "get_month_sum_issued_loans s period =
     (case incr_month period of
        Inl e \<Rightarrow> Inl e
      | Inr next_month \<Rightarrow> Inr (sql_sum (map body (credits_of_month s period next_month))))"

definition get_month_sum_payments :: "db \<Rightarrow> date \<Rightarrow> py_exception + int option" where
  "get_month_sum_payments s plan_date =
     (case incr_month plan_date of
        Inl e \<Rightarrow> Inl e
      | Inr next_month \<Rightarrow>
          Inr (sql_sum (map payment_sum (payments_of_month s plan_date next_month))))"

definition get_amount_of_loans :: "db \<Rightarrow> date \<Rightarrow> py_exception + int" where
  "get_amount_of_loans s plan_date =
     (case incr_month plan_date of
        Inl e \<Rightarrow> Inl e
      | Inr next_month \<Rightarrow> Inr (int (length (credits_of_month s plan_date next_month))))"

definition get_amount_of_payments :: "db \<Rightarrow> date \<Rightarrow> py_exception + int" where
  "get_amount_of_payments s plan_date =
     (case incr_month plan_date of
        Inl e \<Rightarrow> Inl e
      | Inr next_month \<Rightarrow> Inr (int (length (payments_of_month s plan_date next_month))))"

text \<open>
  \<^verbatim>\<open>get_year_plans\<close>: the plans of the year ordered by period, grouped into a
  dictionary that keeps its keys in insertion order. Plans of the same period stay in
  the order of the table.
\<close>

definition group_append :: "(date \<times> plan list) list \<Rightarrow> plan \<Rightarrow> (date \<times> plan list) list" where
  "group_append grouped p =
     (if plan_period p \<in> set (map fst grouped)
      then map (\<lambda>(k, ps). if k = plan_period p then (k, ps @ [p]) else (k, ps)) grouped
      else grouped @ [(plan_period p, [p])])"

definition get_year_plans :: "db \<Rightarrow> int \<Rightarrow> py_exception + (date \<times> plan list) list" where
  "get_year_plans s y =
     (case mk_date y 1 1 of
        Inl e \<Rightarrow> Inl e
      | Inr first_period \<Rightarrow>
          (case mk_date y 12 1 of
             Inl e \<Rightarrow> Inl e
           | Inr last_period \<Rightarrow>
               Inr (foldl group_append []
                 (sort_key (\<lambda>p. date_key (plan_period p))
                   (filter (\<lambda>p. date_le first_period (plan_period p) \<and>
                                 date_le (plan_period p) last_period) (plans s))))))"

section \<open>Outcomes of a request\<close>

text \<open>
  A handler of \<^verbatim>\<open>main.py\<close> returns its payload, raises an \<^verbatim>\<open>HTTPException\<close> with a
  status code and a detail, or lets another exception escape. The details are
  messages in Ukrainian; each is named here after what it says. A row error carries
  the row number \<open>index + 1\<close> of its message.
\<close>

datatype row_error =
    InvalidDateFormat nat
  | NotFirstOfMonth nat
  | EmptySum nat
  | InvalidSum nat
  | CategoryNotFound nat ustring
  | PlanExists nat date ustring

datatype detail =
    UserNotFound
  | NotExcelFile
  | MissingColumns "ustring list"
  | RowErrors "row_error list"
  | FileProcessingError
  | StoreSaveError
  | BadDateFormat
  | NoPlansForMonth
  | NoPlansForYear

datatype failure =
    HTTPException nat detail
  | Unhandled py_exception

section \<open>Credit status: \<^verbatim>\<open>get_user_credits\<close>\<close>

text \<open>
  Lines 50 to 54 of \<^verbatim>\<open>main.py\<close>: the days between the contractual return date and
  \<^verbatim>\<open>date.today()\<close>, turned into a number of days overdue.
\<close>

definition days_overdue :: "date \<Rightarrow> date \<Rightarrow> int" where
  "days_overdue return_d today =
     (let d = date_sub_days return_d today
      in if d \<ge> 0 then 0 else \<bar>d\<bar>)"

record repaid_info =
  ri_issuance_date :: date
  ri_actual_return_date :: date
  ri_body :: int
  ri_percent :: int
  ri_loan_payment_amount :: pynum

record outstanding_info =
  oi_issuance_date :: date
  oi_return_date :: date
  oi_days_overdue :: int
  oi_today :: date
  oi_body :: int
  oi_percent :: int
  oi_sum_body_payments :: pynum
  oi_sum_percent_payments :: pynum

text \<open>The two shapes of an entry: \<^verbatim>\<open>is_repaid\<close> true or false.\<close>

datatype credit_entry = Repaid repaid_info | Outstanding outstanding_info

definition credit_status :: "db \<Rightarrow> date \<Rightarrow> credit \<Rightarrow> credit_entry" where
  "credit_status s today c =
     (case actual_return_date c of
        Some returned \<Rightarrow>
          Repaid \<lparr>ri_issuance_date = issuance_date c,
                  ri_actual_return_date = returned,
                  ri_body = body c,
                  ri_percent = percent c,
                  ri_loan_payment_amount = get_loan_payment_amount_by_credit_id s (credit_id c)\<rparr>
      | None \<Rightarrow>
          Outstanding \<lparr>oi_issuance_date = issuance_date c,
                       oi_return_date = return_date c,
                       oi_days_overdue = days_overdue (return_date c) today,
                       oi_today = today,
                       oi_body = body c,
                       oi_percent = percent c,
                       oi_sum_body_payments = get_credit_payments_by_type s (credit_id c) 1,
                       oi_sum_percent_payments = get_credit_payments_by_type s (credit_id c) 2\<rparr>)"

definition get_user_credits :: "db \<Rightarrow> date \<Rightarrow> int \<Rightarrow> failure + credit_entry list" where
  "get_user_credits s today uid =
     (let user_credits = get_credit_by_user_id s uid
      in if user_credits = [] then Inl (HTTPException 404 UserNotFound)
         else Inr (map (credit_status s today) user_credits))"

section \<open>Plan import: \<^verbatim>\<open>upload_plans\<close>\<close>

text \<open>
  The rows of the decoded sheet. A \<open>period\<close> cell is a \<^verbatim>\<open>datetime\<close> (a date and a time
  of day, in seconds), a \<^verbatim>\<open>date\<close>, or something else. A \<open>sum\<close> cell is told by what
  \<^verbatim>\<open>pd.isna(cell)\<close> and \<^verbatim>\<open>Decimal(str(cell))\<close> make of it: it is missing
  (\<^verbatim>\<open>pd.isna\<close>); or its \<^verbatim>\<open>str\<close> reads as the finite decimal \<open>c * 10 ^ e\<close>; or its
  \<^verbatim>\<open>str\<close> reads as a quiet NaN with a sign and a payload (text such as \<^verbatim>\<open>NAN\<close>,
  \<^verbatim>\<open>+nan\<close> or \<^verbatim>\<open>NaN123\<close>, which pandas does not take for a missing value); or it is
  anything else, for which \<^verbatim>\<open>Decimal(str(cell)).quantize(...)\<close> raises (text that is
  no number, a signaling NaN, an infinity). The \<open>category_name\<close> cell is given by its
  \<^verbatim>\<open>str\<close>.
\<close>

datatype period_cell = PDatetime date nat | PDate date | POther

datatype sum_cell = SumNA | SumFinite int int | SumQuietNaN bool nat | SumUnparsable

record row =
  row_period :: period_cell
  row_sum :: sum_cell
  row_category_name :: ustring

text \<open>The dictionary appended to \<^verbatim>\<open>plans_to_insert\<close>.\<close>

record plan_data =
  pd_period :: date
  pd_sum :: decimal
  pd_category_id :: int

text \<open>
  \<^verbatim>\<open>Decimal(c * 10 ^ e).quantize(Decimal('0.00'))\<close> under the default context: the
  number of hundredths, rounded half to even; \<^verbatim>\<open>InvalidOperation\<close> when the result
  would need more than 28 digits.
\<close>

definition quantize2 :: "int \<Rightarrow> int \<Rightarrow> py_exception + int" where
  "quantize2 c e =
     (let m = nat \<bar>c\<bar>;
          h = (if - 2 \<le> e then m * 10 ^ nat (e + 2)
               else round_half_even_div m (10 ^ nat (- 2 - e)))
      in if 10 ^ 28 \<le> h then Inl InvalidOperation
         else Inr (if c < 0 then - int h else int h))"

text \<open>
  \<^verbatim>\<open>Decimal(str(cell)).quantize(Decimal('0.00'))\<close> on a cell that is not missing. A
  quiet NaN is returned as it is, with its payload cut to the context, and nothing is
  raised.
\<close>

definition parse_amount :: "sum_cell \<Rightarrow> py_exception + decimal" where
  "parse_amount cell =
     (case cell of
        SumFinite c e \<Rightarrow> (case quantize2 c e of Inl x \<Rightarrow> Inl x | Inr h \<Rightarrow> Inr (Fixed h))
      | SumQuietNaN neg payload \<Rightarrow> Inr (QNaN neg (fix_payload payload))
      | _ \<Rightarrow> Inl InvalidOperation)"

definition cell_date :: "period_cell \<Rightarrow> date option" where
  "cell_date cell =
     (case cell of
        PDatetime d t \<Rightarrow> Some d
      | PDate d \<Rightarrow> Some d
      | POther \<Rightarrow> None)"

text \<open>
  The body of the loop over the rows (lines 98 to 135): \<open>Inl\<close> is the message
  appended to \<open>errors\<close> before \<^verbatim>\<open>continue\<close>, \<open>Inr\<close> the dictionary appended to
  \<open>plans_to_insert\<close>. \<^verbatim>\<open>not category_id\<close> holds for \<^verbatim>\<open>None\<close> and for the id 0.
\<close>

definition check_row :: "db \<Rightarrow> nat \<Rightarrow> row \<Rightarrow> row_error + plan_data" where
  "check_row s index r =
     (case cell_date (row_period r) of
        None \<Rightarrow> Inl (InvalidDateFormat (index + 1))
      | Some period_date \<Rightarrow>
          if day period_date \<noteq> 1 then Inl (NotFirstOfMonth (index + 1))
          else if row_sum r = SumNA then Inl (EmptySum (index + 1))
          else (case parse_amount (row_sum r) of
             Inl e \<Rightarrow> Inl (InvalidSum (index + 1))
           | Inr amount \<Rightarrow>
               (let category_name = strip (row_category_name r)
                in case get_category_id_by_name s category_name of
                     None \<Rightarrow> Inl (CategoryNotFound (index + 1) category_name)
                   | Some category_id \<Rightarrow>
                       if category_id = 0
                       then Inl (CategoryNotFound (index + 1) category_name)
                       else (case get_plan_by_date_and_category s period_date category_id of
                          Some existing_plan \<Rightarrow>
                            Inl (PlanExists (index + 1) period_date category_name)
                        | None \<Rightarrow>
                            Inr \<lparr>pd_period = period_date, pd_sum = amount,
                                 pd_category_id = category_id\<rparr>))))"

fun process_rows ::
  "db \<Rightarrow> nat \<Rightarrow> row list \<Rightarrow> row_error list \<Rightarrow> plan_data list \<Rightarrow>
   row_error list \<times> plan_data list" where
  "process_rows s index [] errors plans_to_insert = (errors, plans_to_insert)"
| "process_rows s index (r # rest) errors plans_to_insert =
     (case check_row s index r of
        Inl e \<Rightarrow> process_rows s (index + 1) rest (errors @ [e]) plans_to_insert
      | Inr p \<Rightarrow> process_rows s (index + 1) rest errors (plans_to_insert @ [p]))"

subsection \<open>The session and \<^verbatim>\<open>bulk_insert_plans\<close>\<close>

text \<open>
  A session holds the objects added to it (\<open>pending\<close>) and, while a commit runs, the
  rows its transaction has written so far (\<open>written\<close>); the table \<open>plans\<close> of the store
  holds committed rows only. The store gives each written row the next identifier.
  A commit writes the pending rows in order and then commits the transaction. The
  store may fail: with the fault \<open>Some k\<close>, \<open>k\<close> at most the number of pending rows, the
  commit raises after \<open>k\<close> rows are written; otherwise it succeeds.
\<close>

record session =
  pending :: "plan_data list"
  written :: "plan list"

definition next_plan_id :: "plan list \<Rightarrow> int" where
  "next_plan_id table = fold max (map plan_id table) 0 + 1"

fun write_rows :: "plan list \<Rightarrow> plan_data list \<Rightarrow> plan list" where
  "write_rows table [] = table"
| "write_rows table (p # rest) =
     write_rows (table @ [\<lparr>plan_id = next_plan_id table, plan_period = pd_period p,
                           plan_sum = pd_sum p, plan_category_id = pd_category_id p\<rparr>]) rest"

definition session_add :: "session \<Rightarrow> plan_data \<Rightarrow> session" where
  "session_add sess p = sess\<lparr>pending := pending sess @ [p]\<rparr>"

definition commit_rows :: "db \<Rightarrow> session \<Rightarrow> (py_exception + unit) \<times> db \<times> session" where
  "commit_rows s sess =
     (Inr (), s\<lparr>plans := write_rows (plans s) (pending sess)\<rparr>,
      \<lparr>pending = [], written = []\<rparr>)"

definition fail_after :: "nat \<Rightarrow> db \<Rightarrow> session \<Rightarrow> (py_exception + unit) \<times> db \<times> session" where
  "fail_after k s sess =
     (Inl DBAPIError, s,
      \<lparr>pending = drop k (pending sess),
       written = drop (length (plans s)) (write_rows (plans s) (take k (pending sess)))\<rparr>)"

definition session_commit ::
  "nat option \<Rightarrow> db \<Rightarrow> session \<Rightarrow> (py_exception + unit) \<times> db \<times> session" where
  "session_commit fault s sess =
     (case fault of
        None \<Rightarrow> commit_rows s sess
      | Some k \<Rightarrow> if k \<le> length (pending sess) then fail_after k s sess
                  else commit_rows s sess)"

definition session_rollback :: "session \<Rightarrow> session" where
  "session_rollback sess = \<lparr>pending = [], written = []\<rparr>"

definition bulk_insert_plans ::
  "nat option \<Rightarrow> db \<Rightarrow> plan_data list \<Rightarrow> (failure + unit) \<times> db \<times> session" where
  "bulk_insert_plans fault s plans_to_insert =
     (let sess = foldl session_add \<lparr>pending = [], written = []\<rparr> plans_to_insert
      in case session_commit fault s sess of
           (Inl e, s', sess') \<Rightarrow>
             (Inl (HTTPException 500 StoreSaveError), s', session_rollback sess')
         | (Inr u, s', sess') \<Rightarrow> (Inr (), s', sess'))"

subsection \<open>The handler\<close>

text \<open>
  Lines 95 to 145: validate every row, reject the batch when any message was
  collected, insert otherwise. The result is the number of records reported, and the
  store after the request.
\<close>

definition import_plans :: "nat option \<Rightarrow> db \<Rightarrow> row list \<Rightarrow> (failure + nat) \<times> db" where
  "import_plans fault s rows =
     (case process_rows s 0 rows [] [] of
        (errors, plans_to_insert) \<Rightarrow>
          if errors \<noteq> [] then (Inl (HTTPException 400 (RowErrors errors)), s)
          else (case bulk_insert_plans fault s plans_to_insert of
                  (Inl f, s', sess) \<Rightarrow> (Inl f, s')
                | (Inr u, s', sess) \<Rightarrow> (Inr (length plans_to_insert), s')))"

text \<open>
  The whole handler: the file name must end in \<^verbatim>\<open>.xls\<close> or \<^verbatim>\<open>.xlsx\<close>; a sheet that
  cannot be read is an exception, reported with status 500; the three columns must
  be there.
\<close>

record upload =
  filename :: ustring
  sheet :: "(ustring list \<times> row list) option"

definition required_columns :: "ustring list" where
  "required_columns = [ascii ''period'', ascii ''sum'', ascii ''category_name'']"

definition upload_plans :: "nat option \<Rightarrow> db \<Rightarrow> upload \<Rightarrow> (failure + nat) \<times> db" where
  "upload_plans fault s file =
     (if \<not> (endswith (filename file) (ascii ''.xls'') \<or> endswith (filename file) (ascii ''.xlsx''))
      then (Inl (HTTPException 400 NotExcelFile), s)
      else (case sheet file of
              None \<Rightarrow> (Inl (HTTPException 500 FileProcessingError), s)
            | Some (columns, rows) \<Rightarrow>
                (let missing = filter (\<lambda>col. col \<notin> set columns) required_columns
                 in if missing \<noteq> [] then (Inl (HTTPException 400 (MissingColumns missing)), s)
                    else import_plans fault s rows)))"

section \<open>Month performance: \<^verbatim>\<open>get_all_performance\<close>\<close>

text \<open>
  One entry of the answer. \<open>ps_actual\<close> is the value of the key \<^verbatim>\<open>sum_issued_loans\<close>
  of an issuance entry and of the key \<^verbatim>\<open>payment_sum\<close> of a collection entry, as the
  store returned it.
\<close>

record plan_status =
  ps_period :: date
  ps_category :: ustring
  ps_plan_sum :: decimal
  ps_actual :: "int option"
  ps_plan_completion_rate :: string

definition status_entry :: "plan \<Rightarrow> ustring \<Rightarrow> int option \<Rightarrow> py_exception + plan_status" where
  "status_entry p category actual =
     (case completion_rate actual (plan_sum p) of
        Inl e \<Rightarrow> Inl e
      | Inr rate \<Rightarrow>
          Inr \<lparr>ps_period = plan_period p, ps_category = category, ps_plan_sum = plan_sum p,
               ps_actual = actual, ps_plan_completion_rate = rate\<rparr>)"

text \<open>
  The loop over the plans of the month (lines 174 to 193). A plan of another
  category, or of none, adds nothing.
\<close>

fun plan_statuses ::
  "db \<Rightarrow> date \<Rightarrow> plan list \<Rightarrow> plan_status list \<Rightarrow> py_exception + plan_status list" where
  "plan_statuses s date_obj [] plan_status = Inr plan_status"
| "plan_statuses s date_obj (p # rest) plan_status =
     (let category = get_category_name_by_id s (plan_category_id p)
      in if category = Some ISSUANCE
         then (case status_entry p ISSUANCE (get_sum_issued_loans s (plan_period p) date_obj) of
                 Inl e \<Rightarrow> Inl e
               | Inr entry \<Rightarrow> plan_statuses s date_obj rest (plan_status @ [entry]))
         else if category = Some COLLECTION
         then (case status_entry p COLLECTION (get_payment_sum s (plan_period p) date_obj) of
                 Inl e \<Rightarrow> Inl e
               | Inr entry \<Rightarrow> plan_statuses s date_obj rest (plan_status @ [entry]))
         else plan_statuses s date_obj rest plan_status)"

text \<open>
  The handler. Its argument is what \<^verbatim>\<open>strptime\<close> made of the path parameter:
  \<open>None\<close> when it raised \<^verbatim>\<open>ValueError\<close>.
\<close>

definition get_all_performance :: "db \<Rightarrow> date option \<Rightarrow> failure + plan_status list" where
  "get_all_performance s parsed =
     (case parsed of
        None \<Rightarrow> Inl (HTTPException 400 BadDateFormat)
      | Some date_obj \<Rightarrow>
          (case mk_date (year date_obj) (month date_obj) 1 of
             Inl e \<Rightarrow> Inl (Unhandled e)
           | Inr actual_month \<Rightarrow>
               (let month_plans = get_month_plans s actual_month
                in if month_plans = [] then Inl (HTTPException 404 NoPlansForMonth)
                   else (case plan_statuses s date_obj month_plans [] of
                           Inl e \<Rightarrow> Inl (Unhandled e)
                         | Inr plan_status \<Rightarrow> Inr plan_status))))"

section \<open>Year performance: \<^verbatim>\<open>get_year_performance\<close>\<close>

text \<open>
  The first pass (lines 213 to 218): the running totals \<open>sum_issues_of_year\<close> and
  \<open>sum_payments_of_year\<close>, as a pair.
\<close>

fun year_totals_of_group ::
  "db \<Rightarrow> date \<Rightarrow> plan list \<Rightarrow> pynum \<times> pynum \<Rightarrow> py_exception + pynum \<times> pynum" where
  "year_totals_of_group s plan_date [] totals = Inr totals"
| "year_totals_of_group s plan_date (p # rest) (sum_issues_of_year, sum_payments_of_year) =
     (if Some (plan_category_id p) = get_category_id_by_name s ISSUANCE
      then (case get_month_sum_issued_loans s plan_date of
              Inl e \<Rightarrow> Inl e
            | Inr v \<Rightarrow>
                year_totals_of_group s plan_date rest
                  (py_add sum_issues_of_year (or_0 v), sum_payments_of_year))
      else (case get_month_sum_payments s plan_date of
              Inl e \<Rightarrow> Inl e
            | Inr v \<Rightarrow>
                year_totals_of_group s plan_date rest
                  (sum_issues_of_year, py_add sum_payments_of_year (or_0 v))))"

fun year_totals ::
  "db \<Rightarrow> (date \<times> plan list) list \<Rightarrow> pynum \<times> pynum \<Rightarrow> py_exception + pynum \<times> pynum" where
  "year_totals s [] totals = Inr totals"
| "year_totals s ((plan_date, plans_list) # rest) totals =
     (case year_totals_of_group s plan_date plans_list totals of
        Inl e \<Rightarrow> Inl e
      | Inr totals' \<Rightarrow> year_totals s rest totals')"

text \<open>The six variables of the second pass, set anew for each month.\<close>

record month_vars =
  issued_loans_count :: int
  payments_count :: int
  plan_sum_issued_loans :: pynum
  plan_sum_payments :: pynum
  sum_issued_loans :: pynum
  sum_payments :: pynum

definition month_vars_init :: month_vars where
  "month_vars_init =
     \<lparr>issued_loans_count = 0, payments_count = 0,
      plan_sum_issued_loans = Int0, plan_sum_payments = Int0,
      sum_issued_loans = Int0, sum_payments = Int0\<rparr>"

fun month_vars_of_group ::
  "db \<Rightarrow> date \<Rightarrow> plan list \<Rightarrow> month_vars \<Rightarrow> py_exception + month_vars" where
  "month_vars_of_group s plan_date [] v = Inr v"
| "month_vars_of_group s plan_date (p # rest) v =
     (if Some (plan_category_id p) = get_category_id_by_name s ISSUANCE
      then (case get_amount_of_loans s plan_date of
              Inl e \<Rightarrow> Inl e
            | Inr n \<Rightarrow>
                (case get_month_sum_issued_loans s plan_date of
                   Inl e \<Rightarrow> Inl e
                 | Inr a \<Rightarrow>
                     month_vars_of_group s plan_date rest
                       (v\<lparr>issued_loans_count := issued_loans_count v + n,
                          plan_sum_issued_loans := num_of (plan_sum p),
                          sum_issued_loans := or_0 a\<rparr>)))
      else (case get_amount_of_payments s plan_date of
              Inl e \<Rightarrow> Inl e
            | Inr n \<Rightarrow>
                (case get_month_sum_payments s plan_date of
                   Inl e \<Rightarrow> Inl e
                 | Inr a \<Rightarrow>
                     month_vars_of_group s plan_date rest
                       (v\<lparr>payments_count := payments_count v + n,
                          plan_sum_payments := num_of (plan_sum p),
                          sum_payments := or_0 a\<rparr>))))"

text \<open>
  One entry of the answer (lines 235 to 247). \<open>ys_month\<close> and \<open>ys_year\<close> are the two
  numbers that \<^verbatim>\<open>strftime("%m.%Y")\<close> prints. The four rates are computed in the order
  of the dictionary display, so the first that raises is the one that escapes.
\<close>

record year_status =
  ys_month :: int
  ys_year :: int
  ys_issued_loans_count :: int
  ys_plan_sum_issued_loans :: pynum
  ys_sum_issued_loans :: pynum
  ys_plan_issued_completion_rate :: string
  ys_payments_count :: int
  ys_plan_sum_payments :: pynum
  ys_sum_payments :: pynum
  ys_plan_payments_completion_rate :: string
  ys_monthly_issued_percent_of_year :: string
  ys_monthly_payment_percent_of_year :: string

definition year_entry ::
  "date \<Rightarrow> month_vars \<Rightarrow> pynum \<times> pynum \<Rightarrow> py_exception + year_status" where
  "year_entry plan_date v totals =
     (case percent_str (sum_issued_loans v) (plan_sum_issued_loans v) of
        Inl e \<Rightarrow> Inl e
      | Inr issued_rate \<Rightarrow>
     (case percent_str (sum_payments v) (plan_sum_payments v) of
        Inl e \<Rightarrow> Inl e
      | Inr payments_rate \<Rightarrow>
     (case percent_str (sum_issued_loans v) (or_1 (fst totals)) of
        Inl e \<Rightarrow> Inl e
      | Inr issued_share \<Rightarrow>
     (case percent_str (sum_payments v) (or_1 (snd totals)) of
        Inl e \<Rightarrow> Inl e
      | Inr payments_share \<Rightarrow>
          Inr \<lparr>ys_month = month plan_date, ys_year = year plan_date,
               ys_issued_loans_count = issued_loans_count v,
               ys_plan_sum_issued_loans = plan_sum_issued_loans v,
               ys_sum_issued_loans = sum_issued_loans v,
               ys_plan_issued_completion_rate = issued_rate,
               ys_payments_count = payments_count v,
               ys_plan_sum_payments = plan_sum_payments v,
               ys_sum_payments = sum_payments v,
               ys_plan_payments_completion_rate = payments_rate,
               ys_monthly_issued_percent_of_year = issued_share,
               ys_monthly_payment_percent_of_year = payments_share\<rparr>))))"

fun year_entries ::
  "db \<Rightarrow> (date \<times> plan list) list \<Rightarrow> pynum \<times> pynum \<Rightarrow> year_status list \<Rightarrow>
   py_exception + year_status list" where
  "year_entries s [] totals year_status = Inr year_status"
| "year_entries s ((plan_date, plans_list) # rest) totals year_status =
     (case month_vars_of_group s plan_date plans_list month_vars_init of
        Inl e \<Rightarrow> Inl e
      | Inr v \<Rightarrow>
          (case year_entry plan_date v totals of
             Inl e \<Rightarrow> Inl e
           | Inr entry \<Rightarrow> year_entries s rest totals (year_status @ [entry])))"

definition get_year_performance :: "db \<Rightarrow> int \<Rightarrow> failure + year_status list" where
  "get_year_performance s y =
     (case get_year_plans s y of
        Inl e \<Rightarrow> Inl (Unhandled e)
      | Inr grouped \<Rightarrow>
          if grouped = [] then Inl (HTTPException 404 NoPlansForYear)
          else (case year_totals s grouped (Int0, Int0) of
                  Inl e \<Rightarrow> Inl (Unhandled e)
                | Inr totals \<Rightarrow>
                    (case year_entries s grouped totals [] of
                       Inl e \<Rightarrow> Inl (Unhandled e)
                     | Inr year_status \<Rightarrow> Inr year_status)))"

section \<open>Conditions and example stores used below\<close>

text \<open>
  The ledger has a row for the plan \<open>p\<close> as of \<open>date_obj\<close>: a credit issued in
  \<open>[period, date_obj]\<close> if the plan's category is the issuance one, a payment dated
  in that range if it is the collection one.
\<close>

abbreviation has_ledger_rows :: "db \<Rightarrow> date \<Rightarrow> plan \<Rightarrow> bool" where
  "has_ledger_rows s date_obj p \<equiv>
     (get_category_name_by_id s (plan_category_id p) = Some ISSUANCE \<longrightarrow>
        (\<exists>c \<in> set (credits s).
           date_le (plan_period p) (issuance_date c) \<and> date_le (issuance_date c) date_obj)) \<and>
     (get_category_name_by_id s (plan_category_id p) = Some COLLECTION \<longrightarrow>
        (\<exists>q \<in> set (payments s).
           date_le (plan_period p) (payment_date q) \<and> date_le (payment_date q) date_obj))"

text \<open>
  March 2024 with an issuance target of 10000 and a collection target of 8000, one
  credit of 6000 and one payment of 8200.
\<close>

definition march_2024_db :: db where
  "march_2024_db =
     \<lparr>credits = [\<lparr>credit_id = 1, credit_user_id = 1,
                   issuance_date = \<lparr>year = 2024, month = 3, day = 5\<rparr>,
                   return_date = \<lparr>year = 2024, month = 9, day = 5\<rparr>,
                   actual_return_date = None, body = 600000, percent = 1000\<rparr>],
      dictionaries = [\<lparr>dictionary_id = 1, dictionary_name = ISSUANCE\<rparr>,
                      \<lparr>dictionary_id = 2, dictionary_name = COLLECTION\<rparr>],
      plans = [\<lparr>plan_id = 1, plan_period = \<lparr>year = 2024, month = 3, day = 1\<rparr>,
                 plan_sum = Fixed 1000000, plan_category_id = 1\<rparr>,
               \<lparr>plan_id = 2, plan_period = \<lparr>year = 2024, month = 3, day = 1\<rparr>,
                 plan_sum = Fixed 800000, plan_category_id = 2\<rparr>],
      payments = [\<lparr>payment_id = 1, payment_sum = 820000,
                    payment_date = \<lparr>year = 2024, month = 3, day = 10\<rparr>,
                    payment_credit_id = 1, payment_type_id = 3\<rparr>]\<rparr>"

text \<open>
  The outcomes of the loop body on the rows, numbered from \<open>index\<close> as
  \<^verbatim>\<open>df.iterrows()\<close> numbers them, and the fields of a stored plan that came from the
  sheet.
\<close>

definition row_results :: "db \<Rightarrow> nat \<Rightarrow> row list \<Rightarrow> (row_error + plan_data) list" where
  "row_results s index rows = map (\<lambda>(k, r). check_row s k r) (enumerate index rows)"

definition plan_data_of :: "plan \<Rightarrow> plan_data" where
  "plan_data_of p =
     \<lparr>pd_period = plan_period p, pd_sum = plan_sum p, pd_category_id = plan_category_id p\<rparr>"

text \<open>
  Two rows of a sheet: one dated the 15th whose other cells are unusable, and one
  for April 2024 with the sum 12.345 and the collection category written with
  surrounding white space.
\<close>

definition bad_day_row :: row where
  "bad_day_row =
     \<lparr>row_period = PDatetime \<lparr>year = 2024, month = 3, day = 15\<rparr> 0,
      row_sum = SumUnparsable, row_category_name = []\<rparr>"

definition april_row :: row where
  "april_row =
     \<lparr>row_period = PDate \<lparr>year = 2024, month = 4, day = 1\<rparr>,
      row_sum = SumFinite 12345 (- 3), row_category_name = 32 # COLLECTION @ [32, 10]\<rparr>"

text \<open>The (period, category id) pairs of the stored plans, one for each plan.\<close>

definition plan_keys :: "db \<Rightarrow> (date \<times> int) list" where
  "plan_keys s = map (\<lambda>p. (plan_period p, plan_category_id p)) (plans s)"

text \<open>
  The store of March 2024 with its collection plan only, and with a single plan
  whose category is neither of the two the engine knows.
\<close>

definition collection_only_db :: db where
  "collection_only_db =
     march_2024_db\<lparr>plans :=
       [\<lparr>plan_id = 2, plan_period = \<lparr>year = 2024, month = 3, day = 1\<rparr>,
         plan_sum = Fixed 800000, plan_category_id = 2\<rparr>]\<rparr>"

definition other_category_db :: db where
  "other_category_db =
     march_2024_db\<lparr>
       dictionaries := dictionaries march_2024_db @
         [\<lparr>dictionary_id = 3, dictionary_name = ascii ''other''\<rparr>],
       plans :=
         [\<lparr>plan_id = 3, plan_period = \<lparr>year = 2024, month = 3, day = 1\<rparr>,
           plan_sum = Fixed 500000, plan_category_id = 3\<rparr>]\<rparr>"

text \<open>
  March 2024 with an issuance plan whose target is 0 and one credit of 50, and a row
  for April 2024 whose sum cell holds the text \<^verbatim>\<open>NAN\<close>.
\<close>

definition zero_target_db :: db where
  "zero_target_db =
     \<lparr>credits = [\<lparr>credit_id = 1, credit_user_id = 1,
                   issuance_date = \<lparr>year = 2024, month = 3, day = 5\<rparr>,
                   return_date = \<lparr>year = 2024, month = 9, day = 5\<rparr>,
                   actual_return_date = None, body = 5000, percent = 1000\<rparr>],
      dictionaries = [\<lparr>dictionary_id = 1, dictionary_name = ISSUANCE\<rparr>,
                      \<lparr>dictionary_id = 2, dictionary_name = COLLECTION\<rparr>],
      plans = [\<lparr>plan_id = 1, plan_period = \<lparr>year = 2024, month = 3, day = 1\<rparr>,
                 plan_sum = Fixed 0, plan_category_id = 1\<rparr>],
      payments = []\<rparr>"

definition nan_row :: row where
  "nan_row =
     \<lparr>row_period = PDate \<lparr>year = 2024, month = 4, day = 1\<rparr>,
      row_sum = SumQuietNaN False 0, row_category_name = COLLECTION\<rparr>"

section \<open>Properties of the month arithmetic\<close>

lemma days_in_month_pos: "1 \<le> days_in_month y m"
  by (simp add: days_in_month_def)

lemma mk_date_Inr:
  "valid_date \<lparr>year = y, month = m, day = d\<rparr> \<Longrightarrow>
   mk_date y m d = Inr \<lparr>year = y, month = m, day = d\<rparr>"
  by (simp add: mk_date_def)

lemma incr_month_error: "incr_month d = Inl e \<Longrightarrow> e = ValueError"
  by (auto simp: incr_month_def mk_date_def Let_def split: if_splits)

text \<open>
  Claim C9, as stated, says that \<open>incr_month\<close> returns the first day of the following
  month for every first-of-month date. It does not for December 9999, a date that
  Python accepts: the following month is outside the range of \<^verbatim>\<open>date\<close>, and the
  constructor raises \<^verbatim>\<open>ValueError\<close>.
\<close>

theorem incr_month_last_month_counterexample:
  "valid_date \<lparr>year = 9999, month = 12, day = 1\<rparr> \<and>
   incr_month \<lparr>year = 9999, month = 12, day = 1\<rparr> = Inl ValueError"
  by (simp add: incr_month_def mk_date_def valid_date_def MINYEAR_def MAXYEAR_def
      days_in_month_def)

text \<open>
  Claim C9, amended: for every date that is the first day of a month other than
  December 9999, \<open>incr_month\<close> returns the first day of the following month: the day
  of the result is 1, the month is one more, and December of year \<open>y\<close> gives January 1
  of year \<open>y + 1\<close>.
\<close>

theorem incr_month_first_of_next_month:
  assumes "valid_date d" and "day d = 1" and "\<not> (year d = 9999 \<and> month d = 12)"
  shows "incr_month d =
           Inr \<lparr>year = (if month d = 12 then year d + 1 else year d),
                month = (if month d = 12 then 1 else month d + 1),
                day = 1\<rparr>"
proof (cases "month d = 12")
  case True
  with assms have "valid_date \<lparr>year = year d + 1, month = 1, day = 1\<rparr>"
    using days_in_month_pos [of "year d + 1" 1]
    by (simp add: valid_date_def MINYEAR_def MAXYEAR_def)
  with True show ?thesis
    by (simp add: incr_month_def mk_date_Inr)
next
  case False
  with assms have "valid_date \<lparr>year = year d, month = month d + 1, day = 1\<rparr>"
    using days_in_month_pos [of "year d" "month d + 1"]
    by (simp add: valid_date_def MINYEAR_def MAXYEAR_def)
  with False show ?thesis
    by (simp add: incr_month_def mk_date_Inr)
qed

theorem incr_month_first_of_next_month_witness:
  "incr_month \<lparr>year = 2024, month = 12, day = 1\<rparr> = Inr \<lparr>year = 2025, month = 1, day = 1\<rparr> \<and>
   incr_month \<lparr>year = 2024, month = 3, day = 1\<rparr> = Inr \<lparr>year = 2024, month = 4, day = 1\<rparr>"
proof -
  have v1: "valid_date \<lparr>year = 2024, month = 12, day = 1\<rparr>"
    by (simp add: valid_date_def MINYEAR_def MAXYEAR_def days_in_month_def)
  have v2: "valid_date \<lparr>year = 2024, month = 3, day = 1\<rparr>"
    by (simp add: valid_date_def MINYEAR_def MAXYEAR_def days_in_month_def)
  show ?thesis
    using incr_month_first_of_next_month [OF v1] incr_month_first_of_next_month [OF v2]
    by simp
qed

section \<open>Properties of the credit status\<close>

lemmas toordinal_eval = date_sub_days_def toordinal_def days_before_year_def
  days_before_month_def DAYS_BEFORE_MONTH_def is_leap_def

text \<open>
  Claim C8: for every outstanding credit (no actual return date), the entry reports
  \<open>days_overdue = max 0 (today - return_date)\<close> in days. The value is never negative;
  it is 0 when the return date is today or later, and 10 when the return date is 10
  days in the past.
\<close>

theorem outstanding_days_overdue:
  assumes "actual_return_date c = None"
  shows "\<exists>info. credit_status s today c = Outstanding info \<and>
           oi_days_overdue info = max 0 (date_sub_days today (return_date c)) \<and>
           0 \<le> oi_days_overdue info \<and>
           (date_sub_days today (return_date c) \<le> 0 \<longrightarrow> oi_days_overdue info = 0) \<and>
           (date_sub_days today (return_date c) = 10 \<longrightarrow> oi_days_overdue info = 10) \<and>
           (c \<in> set (credits s) \<longrightarrow>
              (\<exists>entries. get_user_credits s today (credit_user_id c) = Inr entries \<and>
                         Outstanding info \<in> set entries))"
proof -
  define info where "info =
     \<lparr>oi_issuance_date = issuance_date c, oi_return_date = return_date c,
      oi_days_overdue = days_overdue (return_date c) today, oi_today = today,
      oi_body = body c, oi_percent = percent c,
      oi_sum_body_payments = get_credit_payments_by_type s (credit_id c) 1,
      oi_sum_percent_payments = get_credit_payments_by_type s (credit_id c) 2\<rparr>"
  have st: "credit_status s today c = Outstanding info"
    using assms by (simp add: credit_status_def info_def)
  have d: "oi_days_overdue info = max 0 (date_sub_days today (return_date c))"
    by (simp add: info_def days_overdue_def date_sub_days_def Let_def)
  have h: "\<exists>entries. get_user_credits s today (credit_user_id c) = Inr entries \<and>
                     Outstanding info \<in> set entries" if "c \<in> set (credits s)"
  proof -
    from that have m: "c \<in> set (get_credit_by_user_id s (credit_user_id c))"
      by (simp add: get_credit_by_user_id_def)
    then have "get_credit_by_user_id s (credit_user_id c) \<noteq> []" by auto
    then have "get_user_credits s today (credit_user_id c) =
                 Inr (map (credit_status s today) (get_credit_by_user_id s (credit_user_id c)))"
      by (simp add: get_user_credits_def Let_def)
    moreover from m st have "Outstanding info \<in>
        set (map (credit_status s today) (get_credit_by_user_id s (credit_user_id c)))"
      by force
    ultimately show ?thesis by simp
  qed
  from st d h show ?thesis by auto
qed

theorem outstanding_days_overdue_witness:
  "\<exists>entries info.
     get_user_credits march_2024_db \<lparr>year = 2024, month = 9, day = 15\<rparr> 1 = Inr entries \<and>
     Outstanding info \<in> set entries \<and> oi_days_overdue info = 10"
proof -
  define c where "c = \<lparr>credit_id = 1, credit_user_id = 1,
                   issuance_date = \<lparr>year = 2024, month = 3, day = 5\<rparr>,
                   return_date = \<lparr>year = 2024, month = 9, day = 5\<rparr>,
                   actual_return_date = None, body = 600000, percent = 1000\<rparr>"
  have n: "actual_return_date c = None" by (simp add: c_def)
  have m: "c \<in> set (credits march_2024_db)" by (simp add: c_def march_2024_db_def)
  have u: "credit_user_id c = 1" by (simp add: c_def)
  have d: "date_sub_days \<lparr>year = 2024, month = 9, day = 15\<rparr> (return_date c) = 10"
    by (simp add: c_def toordinal_eval)
  from outstanding_days_overdue [OF n, of march_2024_db "\<lparr>year = 2024, month = 9, day = 15\<rparr>"]
    m u d
  show ?thesis by auto
qed

section \<open>Properties of the month performance\<close>

lemma str_nat_small: "n < 10 \<Longrightarrow> str_nat n = [digit_char n]"
  by (subst str_nat.simps) simp

lemma str_nat_large: "10 \<le> n \<Longrightarrow> str_nat n = str_nat (n div 10) @ [digit_char (n mod 10)]"
  by (subst str_nat.simps) simp

lemmas rate_eval = completion_rate_def or_1_def num_of_def str_dec2_def str_nan_def
  fix_payload_def round_half_even_div_def digit_char_def str_nat_small str_nat_large Let_def

lemma round_half_even_div_exact: "0 < d \<Longrightarrow> round_half_even_div (k * d) d = k"
  by (simp add: round_half_even_div_def)

lemma percent_str_error:
  "percent_str x y = Inl e \<Longrightarrow> e = ZeroDivisionError \<or> e = DivisionByZero \<or> e = InvalidOperation"
  by (cases x; cases y) (auto simp: Let_def split: if_splits)

lemma percent_str_Dec_ok: "\<not> is_zero y \<Longrightarrow> \<exists>r. percent_str (Dec a) y = Inr r"
  by (cases y) (auto simp: Let_def)

lemma or_1_nonzero: "\<not> is_zero (or_1 x)"
  by (simp add: or_1_def)

lemma completion_rate_Some: "\<exists>r. completion_rate (Some a) b = Inr r"
  using percent_str_Dec_ok [OF or_1_nonzero] by (simp add: completion_rate_def)

lemma completion_rate_None: "completion_rate None b = Inl TypeError"
  by (simp add: completion_rate_def)

lemma completion_rate_error: "e = TypeError" if "completion_rate x b = Inl e"
proof (cases x)
  case None
  then show ?thesis using that by (simp add: completion_rate_None)
next
  case (Some a)
  with completion_rate_Some [of a b] that show ?thesis by auto
qed

lemma status_entry_Some: "\<exists>r. status_entry p category (Some a) = Inr r"
  using completion_rate_Some [of a "plan_sum p"] by (auto simp: status_entry_def)

lemma status_entry_None: "status_entry p category None = Inl TypeError"
  by (simp add: status_entry_def completion_rate_None)

lemma status_entry_error: "status_entry p category x = Inl e \<Longrightarrow> e = TypeError"
  by (auto simp: status_entry_def split: sum.splits dest: completion_rate_error)

lemma plan_statuses_error: "plan_statuses s d ps acc = Inl e \<Longrightarrow> e = TypeError"
  by (induction ps arbitrary: acc)
     (auto simp: Let_def split: if_splits sum.splits dest: status_entry_error)

lemma completion_rate_zero_plan:
  "completion_rate (Some a) (Fixed 0) = Inr (str_dec2 (a < 0) (nat \<bar>a\<bar> * 100) @ ''%'')"
proof -
  have "nat \<bar>a * 100\<bar> * 100 = (nat \<bar>a\<bar> * 100) * 100"
    by (simp add: abs_mult nat_mult_distrib)
  then have "round_half_even_div (nat \<bar>a * 100\<bar> * 100) 100 = nat \<bar>a\<bar> * 100"
    using round_half_even_div_exact [of 100 "nat \<bar>a\<bar> * 100"] by simp
  then show ?thesis
    by (simp add: completion_rate_def or_1_def num_of_def Let_def)
qed

lemma ISSUANCE_neq_COLLECTION: "ISSUANCE \<noteq> COLLECTION"
  by (simp add: ISSUANCE_def COLLECTION_def)

lemma get_sum_issued_loans_None:
  "get_sum_issued_loans s a b = None \<longleftrightarrow>
   \<not> (\<exists>c \<in> set (credits s). date_le a (issuance_date c) \<and> date_le (issuance_date c) b)"
  by (auto simp: get_sum_issued_loans_def sql_sum_def filter_empty_conv)

lemma get_payment_sum_None:
  "get_payment_sum s a b = None \<longleftrightarrow>
   \<not> (\<exists>q \<in> set (payments s). date_le a (payment_date q) \<and> date_le (payment_date q) b)"
  by (auto simp: get_payment_sum_def sql_sum_def filter_empty_conv)

lemma status_entry_ok_iff: "(\<exists>r. status_entry p category x = Inr r) \<longleftrightarrow> x \<noteq> None"
  using status_entry_Some [of p category] by (cases x) (auto simp: status_entry_None)

lemma plan_statuses_ok_iff:
  "(\<exists>r. plan_statuses s d ps acc = Inr r) \<longleftrightarrow> (\<forall>p \<in> set ps. has_ledger_rows s d p)"
proof (induction ps arbitrary: acc)
  case Nil
  show ?case by simp
next
  case (Cons p ps)
  let ?cat = "get_category_name_by_id s (plan_category_id p)"
  consider (iss) "?cat = Some ISSUANCE" | (col) "?cat = Some COLLECTION"
    | (other) "?cat \<noteq> Some ISSUANCE" "?cat \<noteq> Some COLLECTION"
    by blast
  then show ?case
  proof cases
    case iss
    show ?thesis
    proof (cases "get_sum_issued_loans s (plan_period p) d")
      case None
      with iss show ?thesis
        using get_sum_issued_loans_None [of s "plan_period p" d]
        by (simp add: status_entry_None)
    next
      case (Some a)
      obtain r where r: "status_entry p ISSUANCE (Some a) = Inr r"
        using status_entry_Some by blast
      from Some have "\<exists>c \<in> set (credits s).
          date_le (plan_period p) (issuance_date c) \<and> date_le (issuance_date c) d"
        using get_sum_issued_loans_None [of s "plan_period p" d] by simp
      with iss Some r Cons.IH [of "acc @ [r]"] show ?thesis
        by (simp add: ISSUANCE_neq_COLLECTION)
    qed
  next
    case col
    show ?thesis
    proof (cases "get_payment_sum s (plan_period p) d")
      case None
      with col show ?thesis
        using get_payment_sum_None [of s "plan_period p" d]
        by (simp add: status_entry_None ISSUANCE_neq_COLLECTION [symmetric])
    next
      case (Some a)
      obtain r where r: "status_entry p COLLECTION (Some a) = Inr r"
        using status_entry_Some by blast
      from Some have "\<exists>q \<in> set (payments s).
          date_le (plan_period p) (payment_date q) \<and> date_le (payment_date q) d"
        using get_payment_sum_None [of s "plan_period p" d] by simp
      with col Some r Cons.IH [of "acc @ [r]"] show ?thesis
        by (simp add: ISSUANCE_neq_COLLECTION [symmetric])
    qed
  next
    case other
    with Cons.IH [of acc] show ?thesis by simp
  qed
qed

lemma valid_date_first: "valid_date d \<Longrightarrow> valid_date (d\<lparr>day := 1\<rparr>)"
  using days_in_month_pos [of "year d" "month d"] by (simp add: valid_date_def)

lemma mk_date_first:
  "valid_date d \<Longrightarrow> mk_date (year d) (month d) 1 = Inr (d\<lparr>day := 1\<rparr>)"
  using valid_date_first [of d] by (simp add: mk_date_def Let_def valid_date_def)


lemma month_query_errors:
  "get_month_sum_issued_loans s d = Inl e \<Longrightarrow> e = ValueError"
  "get_month_sum_payments s d = Inl e \<Longrightarrow> e = ValueError"
  "get_amount_of_loans s d = Inl e \<Longrightarrow> e = ValueError"
  "get_amount_of_payments s d = Inl e \<Longrightarrow> e = ValueError"
  by (auto simp: get_month_sum_issued_loans_def get_month_sum_payments_def
      get_amount_of_loans_def get_amount_of_payments_def
      split: sum.splits dest: incr_month_error)

lemma year_totals_of_group_error:
  "year_totals_of_group s d ps totals = Inl e \<Longrightarrow> e = ValueError"
proof (induction ps arbitrary: totals)
  case Nil
  then show ?case by simp
next
  case (Cons p ps)
  obtain a b where t: "totals = (a, b)" by (cases totals)
  from Cons.prems Cons.IH show ?case
    unfolding t
    by (auto split: if_splits sum.splits dest: month_query_errors)
qed

lemma year_totals_error: "year_totals s groups totals = Inl e \<Longrightarrow> e = ValueError"
proof (induction groups arbitrary: totals)
  case Nil
  then show ?case by simp
next
  case (Cons g groups)
  obtain d ps where g: "g = (d, ps)" by (cases g)
  from Cons.prems Cons.IH show ?case
    unfolding g
    by (auto split: sum.splits dest: year_totals_of_group_error)
qed

lemma month_vars_of_group_error:
  "month_vars_of_group s d ps v = Inl e \<Longrightarrow> e = ValueError"
proof (induction ps arbitrary: v)
  case Nil
  then show ?case by simp
next
  case (Cons p ps)
  from Cons.prems Cons.IH show ?case
    by (auto split: if_splits sum.splits dest: month_query_errors)
qed

lemma year_entry_error:
  "year_entry d v totals = Inl e \<Longrightarrow>
   e = ZeroDivisionError \<or> e = DivisionByZero \<or> e = InvalidOperation"
  by (auto simp: year_entry_def split: sum.splits dest: percent_str_error)

lemma year_entries_error:
  "year_entries s groups totals acc = Inl e \<Longrightarrow> e \<noteq> TypeError"
proof (induction groups arbitrary: acc)
  case Nil
  then show ?case by simp
next
  case (Cons g groups)
  obtain d ps where g: "g = (d, ps)" by (cases g)
  from Cons.prems Cons.IH show ?case
    unfolding g
    by (auto split: sum.splits dest: month_vars_of_group_error year_entry_error)
qed

lemma get_year_plans_error: "get_year_plans s y = Inl e \<Longrightarrow> e = ValueError"
  by (auto simp: get_year_plans_def mk_date_def Let_def split: sum.splits if_splits)

lemma get_year_performance_no_TypeError:
  "get_year_performance s y \<noteq> Inl (Unhandled TypeError)"
  by (auto simp: get_year_performance_def split: sum.splits if_splits
      dest: get_year_plans_error year_totals_error year_entries_error)

lemmas store_eval = get_month_plans_def get_category_name_by_id_def get_category_id_by_name_def
  get_sum_issued_loans_def get_payment_sum_def get_plan_by_date_and_category_def
  first_row_def sql_sum_def date_le_def date_lt_def date_key_def ISSUANCE_def COLLECTION_def

lemma march_2024_performance:
  "get_all_performance march_2024_db (Some \<lparr>year = 2024, month = 3, day = 20\<rparr>) =
     Inr [\<lparr>ps_period = \<lparr>year = 2024, month = 3, day = 1\<rparr>, ps_category = ISSUANCE,
           ps_plan_sum = Fixed 1000000, ps_actual = Some 600000,
           ps_plan_completion_rate = ''60.00%''\<rparr>,
          \<lparr>ps_period = \<lparr>year = 2024, month = 3, day = 1\<rparr>, ps_category = COLLECTION,
           ps_plan_sum = Fixed 800000, ps_actual = Some 820000,
           ps_plan_completion_rate = ''102.50%''\<rparr>]"
  by (simp add: get_all_performance_def march_2024_db_def mk_date_def valid_date_def
      MINYEAR_def MAXYEAR_def days_in_month_def status_entry_def store_eval rate_eval)

lemma plan_statuses_keeps: "plan_statuses s d ps acc = Inr r \<Longrightarrow> set acc \<subseteq> set r"
proof (induction ps arbitrary: acc)
  case Nil
  then show ?case by simp
next
  case (Cons q ps)
  from Cons.prems consider
      (added) e where "plan_statuses s d ps (acc @ [e]) = Inr r"
    | (skipped) "plan_statuses s d ps acc = Inr r"
    by (auto simp: Let_def split: if_splits sum.splits)
  then show ?case
  proof cases
    case added
    from Cons.IH [OF added] show ?thesis by auto
  next
    case skipped
    then show ?thesis by (rule Cons.IH)
  qed
qed

lemma plan_statuses_entry:
  assumes "plan_statuses s d ps acc = Inr r" and "p \<in> set ps"
  shows "(get_category_name_by_id s (plan_category_id p) = Some ISSUANCE \<longrightarrow>
            (\<exists>e. status_entry p ISSUANCE (get_sum_issued_loans s (plan_period p) d) = Inr e \<and>
                 e \<in> set r)) \<and>
         (get_category_name_by_id s (plan_category_id p) = Some COLLECTION \<longrightarrow>
            (\<exists>e. status_entry p COLLECTION (get_payment_sum s (plan_period p) d) = Inr e \<and>
                 e \<in> set r))"
  using assms
proof (induction ps arbitrary: acc)
  case Nil
  then show ?case by simp
next
  case (Cons q ps)
  show ?case
  proof (cases "p = q")
    case False
    with Cons.prems obtain acc' where "plan_statuses s d ps acc' = Inr r" "p \<in> set ps"
      by (auto simp: Let_def split: if_splits sum.splits)
    then show ?thesis by (rule Cons.IH)
  next
    case True
    let ?cat = "get_category_name_by_id s (plan_category_id p)"
    have iss: "\<exists>e. status_entry p ISSUANCE (get_sum_issued_loans s (plan_period p) d) = Inr e \<and>
                 e \<in> set r" if c: "?cat = Some ISSUANCE"
    proof -
      from Cons.prems(1) c True obtain e where
        e: "status_entry p ISSUANCE (get_sum_issued_loans s (plan_period p) d) = Inr e"
           "plan_statuses s d ps (acc @ [e]) = Inr r"
        by (auto simp: Let_def split: sum.splits)
      from plan_statuses_keeps [OF e(2)] have "e \<in> set r" by auto
      with e(1) show ?thesis by blast
    qed
    have col: "\<exists>e. status_entry p COLLECTION (get_payment_sum s (plan_period p) d) = Inr e \<and>
                 e \<in> set r" if c: "?cat = Some COLLECTION"
    proof -
      from Cons.prems(1) c True obtain e where
        e: "status_entry p COLLECTION (get_payment_sum s (plan_period p) d) = Inr e"
           "plan_statuses s d ps (acc @ [e]) = Inr r"
        by (auto simp: Let_def ISSUANCE_neq_COLLECTION [symmetric] split: sum.splits)
      from plan_statuses_keeps [OF e(2)] have "e \<in> set r" by auto
      with e(1) show ?thesis by blast
    qed
    from iss col show ?thesis by blast
  qed
qed

lemma status_entry_zero_plan:
  assumes "plan_sum p = Fixed 0" and "status_entry p category x = Inr e"
  shows "\<exists>a. x = Some a \<and>
           e = \<lparr>ps_period = plan_period p, ps_category = category, ps_plan_sum = Fixed 0,
                ps_actual = Some a,
                ps_plan_completion_rate = str_dec2 (a < 0) (nat \<bar>a\<bar> * 100) @ ''%''\<rparr>"
proof (cases x)
  case None
  with assms(2) show ?thesis by (simp add: status_entry_None)
next
  case (Some a)
  with assms show ?thesis
    by (auto simp: status_entry_def completion_rate_zero_plan)
qed

lemma get_all_performance_Inr:
  assumes "get_all_performance s (Some date_obj) = Inr result"
  shows "plan_statuses s date_obj (get_month_plans s (date_obj\<lparr>day := 1\<rparr>)) [] = Inr result"
proof -
  from assms have "mk_date (year date_obj) (month date_obj) 1 = Inr (date_obj\<lparr>day := 1\<rparr>)"
    by (auto simp: get_all_performance_def mk_date_def Let_def split: sum.splits if_splits)
  with assms show ?thesis
    by (auto simp: get_all_performance_def Let_def split: sum.splits if_splits)
qed

lemma get_all_performance_error:
  "get_all_performance s parsed = Inl (Unhandled e) \<Longrightarrow> e = ValueError \<or> e = TypeError"
  by (auto simp: get_all_performance_def mk_date_def Let_def
      split: option.splits sum.splits if_splits dest: plan_statuses_error)

text \<open>
  Claim C4: in the month performance, a plan whose target sum is 0 has its completion
  rate computed with the divisor 1. Whenever the request for a date succeeds, the
  answer holds, for every issuance or collection plan of the month whose target is 0,
  the entry of that plan, and its rate is the actual sum times 100 printed with two
  decimals; an actual sum of 50 gives \<open>5000.00%\<close>. No request ends in a
  division-by-zero failure, of integers or of decimals.
\<close>

theorem zero_plan_completion_rate:
  "(get_all_performance s (Some date_obj) = Inr result \<and>
    p \<in> set (get_month_plans s (date_obj\<lparr>day := 1\<rparr>)) \<and> plan_sum p = Fixed 0 \<and>
    get_category_name_by_id s (plan_category_id p) = Some ISSUANCE \<longrightarrow>
      (\<exists>a. get_sum_issued_loans s (plan_period p) date_obj = Some a \<and>
           \<lparr>ps_period = plan_period p, ps_category = ISSUANCE, ps_plan_sum = Fixed 0,
            ps_actual = Some a,
            ps_plan_completion_rate = str_dec2 (a < 0) (nat \<bar>a\<bar> * 100) @ ''%''\<rparr>
           \<in> set result)) \<and>
   (get_all_performance s (Some date_obj) = Inr result \<and>
    p \<in> set (get_month_plans s (date_obj\<lparr>day := 1\<rparr>)) \<and> plan_sum p = Fixed 0 \<and>
    get_category_name_by_id s (plan_category_id p) = Some COLLECTION \<longrightarrow>
      (\<exists>a. get_payment_sum s (plan_period p) date_obj = Some a \<and>
           \<lparr>ps_period = plan_period p, ps_category = COLLECTION, ps_plan_sum = Fixed 0,
            ps_actual = Some a,
            ps_plan_completion_rate = str_dec2 (a < 0) (nat \<bar>a\<bar> * 100) @ ''%''\<rparr>
           \<in> set result)) \<and>
   (plan_sum p = Fixed 0 \<longrightarrow>
      status_entry p category (Some a) =
        Inr \<lparr>ps_period = plan_period p, ps_category = category, ps_plan_sum = Fixed 0,
             ps_actual = Some a,
             ps_plan_completion_rate = str_dec2 (a < 0) (nat \<bar>a\<bar> * 100) @ ''%''\<rparr>) \<and>
   completion_rate (Some 5000) (Fixed 0) = Inr ''5000.00%'' \<and>
   get_all_performance s' parsed \<noteq> Inl (Unhandled ZeroDivisionError) \<and>
   get_all_performance s' parsed \<noteq> Inl (Unhandled DivisionByZero) \<and>
   get_all_performance s' parsed \<noteq> Inl (Unhandled InvalidOperation)"
proof (intro conjI impI)
  assume h: "get_all_performance s (Some date_obj) = Inr result \<and>
    p \<in> set (get_month_plans s (date_obj\<lparr>day := 1\<rparr>)) \<and> plan_sum p = Fixed 0 \<and>
    get_category_name_by_id s (plan_category_id p) = Some ISSUANCE"
  from h plan_statuses_entry [OF get_all_performance_Inr, of s date_obj result p]
  obtain e where e: "status_entry p ISSUANCE (get_sum_issued_loans s (plan_period p) date_obj) = Inr e"
      "e \<in> set result"
    by blast
  from h status_entry_zero_plan [OF _ e(1)] e(2)
  show "\<exists>a. get_sum_issued_loans s (plan_period p) date_obj = Some a \<and>
           \<lparr>ps_period = plan_period p, ps_category = ISSUANCE, ps_plan_sum = Fixed 0,
            ps_actual = Some a,
            ps_plan_completion_rate = str_dec2 (a < 0) (nat \<bar>a\<bar> * 100) @ ''%''\<rparr>
           \<in> set result"
    by auto
next
  assume h: "get_all_performance s (Some date_obj) = Inr result \<and>
    p \<in> set (get_month_plans s (date_obj\<lparr>day := 1\<rparr>)) \<and> plan_sum p = Fixed 0 \<and>
    get_category_name_by_id s (plan_category_id p) = Some COLLECTION"
  from h plan_statuses_entry [OF get_all_performance_Inr, of s date_obj result p]
  obtain e where e: "status_entry p COLLECTION (get_payment_sum s (plan_period p) date_obj) = Inr e"
      "e \<in> set result"
    by blast
  from h status_entry_zero_plan [OF _ e(1)] e(2)
  show "\<exists>a. get_payment_sum s (plan_period p) date_obj = Some a \<and>
           \<lparr>ps_period = plan_period p, ps_category = COLLECTION, ps_plan_sum = Fixed 0,
            ps_actual = Some a,
            ps_plan_completion_rate = str_dec2 (a < 0) (nat \<bar>a\<bar> * 100) @ ''%''\<rparr>
           \<in> set result"
    by auto
next
  assume "plan_sum p = Fixed 0"
  then show "status_entry p category (Some a) =
        Inr \<lparr>ps_period = plan_period p, ps_category = category, ps_plan_sum = Fixed 0,
             ps_actual = Some a,
             ps_plan_completion_rate = str_dec2 (a < 0) (nat \<bar>a\<bar> * 100) @ ''%''\<rparr>"
    by (simp add: status_entry_def completion_rate_zero_plan)
next
  show "completion_rate (Some 5000) (Fixed 0) = Inr ''5000.00%''"
    by (simp add: rate_eval)
next
  show "get_all_performance s' parsed \<noteq> Inl (Unhandled ZeroDivisionError)"
    using get_all_performance_error [of s' parsed ZeroDivisionError] by auto
next
  show "get_all_performance s' parsed \<noteq> Inl (Unhandled DivisionByZero)"
    using get_all_performance_error [of s' parsed DivisionByZero] by auto
next
  show "get_all_performance s' parsed \<noteq> Inl (Unhandled InvalidOperation)"
    using get_all_performance_error [of s' parsed InvalidOperation] by auto
qed

lemma zero_target_performance:
  "get_all_performance zero_target_db (Some \<lparr>year = 2024, month = 3, day = 20\<rparr>) =
     Inr [\<lparr>ps_period = \<lparr>year = 2024, month = 3, day = 1\<rparr>, ps_category = ISSUANCE,
           ps_plan_sum = Fixed 0, ps_actual = Some 5000,
           ps_plan_completion_rate = ''5000.00%''\<rparr>]"
  by (simp add: get_all_performance_def zero_target_db_def mk_date_def valid_date_def
      MINYEAR_def MAXYEAR_def days_in_month_def status_entry_def store_eval rate_eval)

theorem zero_plan_completion_rate_witness:
  "\<exists>result. get_all_performance zero_target_db (Some \<lparr>year = 2024, month = 3, day = 20\<rparr>) =
             Inr result \<and>
     \<lparr>ps_period = \<lparr>year = 2024, month = 3, day = 1\<rparr>, ps_category = ISSUANCE,
      ps_plan_sum = Fixed 0, ps_actual = Some 5000,
      ps_plan_completion_rate = ''5000.00%''\<rparr> \<in> set result"
proof -
  let ?d = "\<lparr>year = 2024, month = 3, day = 20\<rparr>"
  let ?p = "\<lparr>plan_id = 1, plan_period = \<lparr>year = 2024, month = 3, day = 1\<rparr>,
             plan_sum = Fixed 0, plan_category_id = 1\<rparr>"
  obtain result where g: "get_all_performance zero_target_db (Some ?d) = Inr result"
    using zero_target_performance by blast
  have m: "?p \<in> set (get_month_plans zero_target_db (?d\<lparr>day := 1\<rparr>))"
    by (simp add: zero_target_db_def get_month_plans_def)
  have c: "get_category_name_by_id zero_target_db (plan_category_id ?p) = Some ISSUANCE"
    by (simp add: zero_target_db_def store_eval)
  have a: "get_sum_issued_loans zero_target_db (plan_period ?p) ?d = Some 5000"
    by (simp add: zero_target_db_def store_eval)
  have z: "plan_sum ?p = Fixed 0" by simp
  from zero_plan_completion_rate [of zero_target_db ?d result ?p] g m c z a
  have "\<lparr>ps_period = \<lparr>year = 2024, month = 3, day = 1\<rparr>, ps_category = ISSUANCE,
         ps_plan_sum = Fixed 0, ps_actual = Some 5000,
         ps_plan_completion_rate = str_dec2 False 500000 @ ''%''\<rparr> \<in> set result"
    by auto
  moreover have "str_dec2 False 500000 @ ''%'' = ''5000.00%''"
    by (simp add: rate_eval)
  ultimately show ?thesis using g by auto
qed

text \<open>
  Claim C10: the month performance takes the actual sum from the store without a guard
  for an absent value. For a valid date whose month has plans, the request succeeds
  exactly when every issuance plan has a credit, and every collection plan a payment,
  dated in \<open>[period, date_obj]\<close>; otherwise it ends in the \<^verbatim>\<open>TypeError\<close> of
  \<^verbatim>\<open>None * 100\<close>. The year performance coalesces absent sums to 0 and never ends so.
\<close>

theorem month_performance_needs_ledger_rows:
  assumes "valid_date date_obj"
    and "get_month_plans s (date_obj\<lparr>day := 1\<rparr>) \<noteq> []"
  shows "((\<exists>r. get_all_performance s (Some date_obj) = Inr r) \<longleftrightarrow>
          (\<forall>p \<in> set (get_month_plans s (date_obj\<lparr>day := 1\<rparr>)). has_ledger_rows s date_obj p)) \<and>
         ((\<forall>r. get_all_performance s (Some date_obj) \<noteq> Inr r) \<longrightarrow>
            get_all_performance s (Some date_obj) = Inl (Unhandled TypeError)) \<and>
         get_year_performance s y \<noteq> Inl (Unhandled TypeError)"
proof -
  let ?ps = "get_month_plans s (date_obj\<lparr>day := 1\<rparr>)"
  have g: "get_all_performance s (Some date_obj) =
             (case plan_statuses s date_obj ?ps [] of
                Inl e \<Rightarrow> Inl (Unhandled e) | Inr r \<Rightarrow> Inr r)"
    using assms by (simp add: get_all_performance_def mk_date_first Let_def)
  have a: "(\<exists>r. get_all_performance s (Some date_obj) = Inr r) \<longleftrightarrow>
           (\<forall>p \<in> set ?ps. has_ledger_rows s date_obj p)"
    unfolding g plan_statuses_ok_iff [of s date_obj ?ps "[]", symmetric]
    by (cases "plan_statuses s date_obj ?ps []") auto
  have b: "(\<forall>r. get_all_performance s (Some date_obj) \<noteq> Inr r) \<longrightarrow>
            get_all_performance s (Some date_obj) = Inl (Unhandled TypeError)"
    unfolding g
    by (cases "plan_statuses s date_obj ?ps []") (auto dest: plan_statuses_error)
  from a b get_year_performance_no_TypeError show ?thesis by blast
qed


theorem month_performance_needs_ledger_rows_witness:
  "(\<exists>r. get_all_performance march_2024_db (Some \<lparr>year = 2024, month = 3, day = 20\<rparr>) = Inr r) \<and>
   get_all_performance (march_2024_db\<lparr>payments := []\<rparr>)
     (Some \<lparr>year = 2024, month = 3, day = 20\<rparr>) = Inl (Unhandled TypeError)"
proof -
  let ?d = "\<lparr>year = 2024, month = 3, day = 20\<rparr>"
  let ?s = "march_2024_db\<lparr>payments := []\<rparr>"
  have v: "valid_date ?d"
    by (simp add: valid_date_def MINYEAR_def MAXYEAR_def days_in_month_def)
  have p1: "get_month_plans march_2024_db (?d\<lparr>day := 1\<rparr>) \<noteq> []"
    by (simp add: march_2024_db_def get_month_plans_def)
  have p2: "get_month_plans ?s (?d\<lparr>day := 1\<rparr>) \<noteq> []"
    by (simp add: march_2024_db_def get_month_plans_def)
  have c1: "\<forall>p \<in> set (get_month_plans march_2024_db (?d\<lparr>day := 1\<rparr>)).
              has_ledger_rows march_2024_db ?d p"
    by (simp add: march_2024_db_def store_eval)
  have c2: "\<not> (\<forall>p \<in> set (get_month_plans ?s (?d\<lparr>day := 1\<rparr>)). has_ledger_rows ?s ?d p)"
    by (simp add: march_2024_db_def store_eval)
  from month_performance_needs_ledger_rows [OF v p1] c1
  have a: "\<exists>r. get_all_performance march_2024_db (Some ?d) = Inr r" by blast
  from month_performance_needs_ledger_rows [OF v p2] c2
  have b: "get_all_performance ?s (Some ?d) = Inl (Unhandled TypeError)" by blast
  from a b show ?thesis by blast
qed


section \<open>Properties of the plan import\<close>

lemma row_results_Nil: "row_results s i [] = []"
  by (simp add: row_results_def)

lemma row_results_Cons: "row_results s i (r # rows) = check_row s i r # row_results s (Suc i) rows"
  by (simp add: row_results_def)

lemma length_row_results: "length (row_results s i rows) = length rows"
  by (simp add: row_results_def)

lemma process_rows_eq:
  "process_rows s i rows errors plans_to_insert =
     (errors @ [e. Inl e \<leftarrow> row_results s i rows],
      plans_to_insert @ [p. Inr p \<leftarrow> row_results s i rows])"
  by (induction rows arbitrary: i errors plans_to_insert)
     (auto simp: row_results_Nil row_results_Cons split: sum.splits)

lemma lefts_empty_iff: "[e. Inl e \<leftarrow> xs] = [] \<longleftrightarrow> (\<forall>x \<in> set xs. \<not> isl x)"
  by (induction xs) (auto split: sum.splits)

lemma rights_all: "(\<forall>x \<in> set xs. \<not> isl x) \<Longrightarrow> length [p. Inr p \<leftarrow> xs] = length xs"
  by (induction xs) (auto split: sum.splits)

text \<open>
  Claim C6: the checks of a row are applied in a fixed order (the date parses, its
  day is 1, the sum is present, the sum parses, the category resolves, no plan exists
  yet), and the first that fails decides the message. A row dated 2024-03-15 is
  rejected as not the first of the month whatever its other fields are: it adds
  exactly one message and no plan, and the loop goes on with the next row. Over all
  rows, the loop collects one message for each failing row and one plan for each
  other row, in order.
\<close>

theorem check_row_order:
  "(cell_date (row_period r) = None \<longrightarrow> check_row s i r = Inl (InvalidDateFormat (i + 1))) \<and>
   (\<forall>d. cell_date (row_period r) = Some d \<and> day d \<noteq> 1 \<longrightarrow>
      check_row s i r = Inl (NotFirstOfMonth (i + 1))) \<and>
   (\<forall>d. cell_date (row_period r) = Some d \<and> day d = 1 \<and> row_sum r = SumNA \<longrightarrow>
      check_row s i r = Inl (EmptySum (i + 1))) \<and>
   (\<forall>d. cell_date (row_period r) = Some d \<and> day d = 1 \<and> row_sum r \<noteq> SumNA \<and>
        isl (parse_amount (row_sum r)) \<longrightarrow>
      check_row s i r = Inl (InvalidSum (i + 1))) \<and>
   (\<forall>d a. cell_date (row_period r) = Some d \<and> day d = 1 \<and> row_sum r \<noteq> SumNA \<and>
        parse_amount (row_sum r) = Inr a \<and>
        get_category_id_by_name s (strip (row_category_name r)) \<in> {None, Some 0} \<longrightarrow>
      check_row s i r = Inl (CategoryNotFound (i + 1) (strip (row_category_name r)))) \<and>
   (\<forall>d a cid existing. cell_date (row_period r) = Some d \<and> day d = 1 \<and> row_sum r \<noteq> SumNA \<and>
        parse_amount (row_sum r) = Inr a \<and>
        get_category_id_by_name s (strip (row_category_name r)) = Some cid \<and> cid \<noteq> 0 \<and>
        get_plan_by_date_and_category s d cid = Some existing \<longrightarrow>
      check_row s i r = Inl (PlanExists (i + 1) d (strip (row_category_name r)))) \<and>
   (\<forall>d a cid. cell_date (row_period r) = Some d \<and> day d = 1 \<and> row_sum r \<noteq> SumNA \<and>
        parse_amount (row_sum r) = Inr a \<and>
        get_category_id_by_name s (strip (row_category_name r)) = Some cid \<and> cid \<noteq> 0 \<and>
        get_plan_by_date_and_category s d cid = None \<longrightarrow>
      check_row s i r = Inr \<lparr>pd_period = d, pd_sum = a, pd_category_id = cid\<rparr>) \<and>
   (cell_date (row_period r) = Some \<lparr>year = 2024, month = 3, day = 15\<rparr> \<longrightarrow>
      process_rows s i (r # rest) errors plans_to_insert =
        process_rows s (i + 1) rest (errors @ [NotFirstOfMonth (i + 1)]) plans_to_insert) \<and>
   process_rows s i rows errors plans_to_insert =
     (errors @ [e. Inl e \<leftarrow> row_results s i rows],
      plans_to_insert @ [p. Inr p \<leftarrow> row_results s i rows])"
proof -
  have "check_row s i r = Inl (NotFirstOfMonth (i + 1))"
    if "cell_date (row_period r) = Some \<lparr>year = 2024, month = 3, day = 15\<rparr>"
    using that by (simp add: check_row_def)
  then have step: "cell_date (row_period r) = Some \<lparr>year = 2024, month = 3, day = 15\<rparr> \<longrightarrow>
      process_rows s i (r # rest) errors plans_to_insert =
        process_rows s (i + 1) rest (errors @ [NotFirstOfMonth (i + 1)]) plans_to_insert"
    by simp
  have order: "(cell_date (row_period r) = None \<longrightarrow> check_row s i r = Inl (InvalidDateFormat (i + 1))) \<and>
   (\<forall>d. cell_date (row_period r) = Some d \<and> day d \<noteq> 1 \<longrightarrow>
      check_row s i r = Inl (NotFirstOfMonth (i + 1))) \<and>
   (\<forall>d. cell_date (row_period r) = Some d \<and> day d = 1 \<and> row_sum r = SumNA \<longrightarrow>
      check_row s i r = Inl (EmptySum (i + 1))) \<and>
   (\<forall>d. cell_date (row_period r) = Some d \<and> day d = 1 \<and> row_sum r \<noteq> SumNA \<and>
        isl (parse_amount (row_sum r)) \<longrightarrow>
      check_row s i r = Inl (InvalidSum (i + 1))) \<and>
   (\<forall>d a. cell_date (row_period r) = Some d \<and> day d = 1 \<and> row_sum r \<noteq> SumNA \<and>
        parse_amount (row_sum r) = Inr a \<and>
        get_category_id_by_name s (strip (row_category_name r)) \<in> {None, Some 0} \<longrightarrow>
      check_row s i r = Inl (CategoryNotFound (i + 1) (strip (row_category_name r)))) \<and>
   (\<forall>d a cid existing. cell_date (row_period r) = Some d \<and> day d = 1 \<and> row_sum r \<noteq> SumNA \<and>
        parse_amount (row_sum r) = Inr a \<and>
        get_category_id_by_name s (strip (row_category_name r)) = Some cid \<and> cid \<noteq> 0 \<and>
        get_plan_by_date_and_category s d cid = Some existing \<longrightarrow>
      check_row s i r = Inl (PlanExists (i + 1) d (strip (row_category_name r)))) \<and>
   (\<forall>d a cid. cell_date (row_period r) = Some d \<and> day d = 1 \<and> row_sum r \<noteq> SumNA \<and>
        parse_amount (row_sum r) = Inr a \<and>
        get_category_id_by_name s (strip (row_category_name r)) = Some cid \<and> cid \<noteq> 0 \<and>
        get_plan_by_date_and_category s d cid = None \<longrightarrow>
      check_row s i r = Inr \<lparr>pd_period = d, pd_sum = a, pd_category_id = cid\<rparr>)"
    by (auto simp: check_row_def Let_def isl_def)
  from order step process_rows_eq [of s i rows errors plans_to_insert] show ?thesis
    by blast
qed


lemmas import_eval = check_row_def cell_date_def parse_amount_def quantize2_def
  fix_payload_def round_half_even_div_def strip_def is_space_def Let_def

lemma check_bad_day_row: "check_row s i bad_day_row = Inl (NotFirstOfMonth (i + 1))"
  by (simp add: bad_day_row_def check_row_def cell_date_def)

lemma check_april_row:
  "check_row march_2024_db i april_row =
     Inr \<lparr>pd_period = \<lparr>year = 2024, month = 4, day = 1\<rparr>, pd_sum = Fixed 1234, pd_category_id = 2\<rparr>"
  by (simp add: april_row_def march_2024_db_def import_eval store_eval)

theorem check_row_order_witness:
  "process_rows march_2024_db 0 [bad_day_row, april_row] [] [] =
     ([NotFirstOfMonth 1],
      [\<lparr>pd_period = \<lparr>year = 2024, month = 4, day = 1\<rparr>, pd_sum = Fixed 1234, pd_category_id = 2\<rparr>])"
proof -
  have d: "cell_date (row_period bad_day_row) = Some \<lparr>year = 2024, month = 3, day = 15\<rparr>"
    by (simp add: bad_day_row_def cell_date_def)
  from check_row_order [of bad_day_row march_2024_db 0 "[april_row]" "[]" "[]"] d
  have "process_rows march_2024_db 0 [bad_day_row, april_row] [] [] =
          process_rows march_2024_db 1 [april_row] [NotFirstOfMonth 1] []"
    by simp
  then show ?thesis by (simp add: check_april_row)
qed

lemma round_half_even_div_spec:
  assumes "0 < d"
  shows "2 * \<bar>int (round_half_even_div n d) * int d - int n\<bar> \<le> int d \<and>
         (2 * \<bar>int (round_half_even_div n d) * int d - int n\<bar> = int d \<longrightarrow>
            even (round_half_even_div n d))"
proof -
  define q where "q = n div d"
  define r where "r = n mod d"
  have n: "int n = int q * int d + int r"
    unfolding q_def r_def by (metis div_mult_mod_eq of_nat_add of_nat_mult)
  have r: "r < d" unfolding r_def using assms by simp
  show ?thesis
  proof (cases "2 * r > d \<or> (2 * r = d \<and> odd q)")
    case True
    then have h: "round_half_even_div n d = q + 1"
      by (simp add: round_half_even_div_def q_def r_def Let_def)
    have "int (q + 1) * int d - int n = int d - int r"
      using n by (simp add: algebra_simps)
    with True r show ?thesis unfolding h by auto
  next
    case False
    then have h: "round_half_even_div n d = q"
      by (simp add: round_half_even_div_def q_def r_def Let_def)
    have "int q * int d - int n = - int r"
      using n by simp
    with False r show ?thesis unfolding h by auto
  qed
qed

lemma quantize2_spec:
  assumes "quantize2 c e = Inr h"
  shows "(- 2 \<le> e \<longrightarrow> h = c * 10 ^ nat (e + 2)) \<and>
         (e < - 2 \<longrightarrow>
            2 * \<bar>h * 10 ^ nat (- 2 - e) - c\<bar> \<le> 10 ^ nat (- 2 - e) \<and>
            (2 * \<bar>h * 10 ^ nat (- 2 - e) - c\<bar> = 10 ^ nat (- 2 - e) \<longrightarrow> even h))"
proof (cases "- 2 \<le> e")
  case True
  with assms have "h = (if c < 0 then - int (nat \<bar>c\<bar> * 10 ^ nat (e + 2))
                        else int (nat \<bar>c\<bar> * 10 ^ nat (e + 2)))"
    by (auto simp: quantize2_def Let_def split: if_splits)
  then have "h = c * 10 ^ nat (e + 2)"
    by (auto simp: abs_if)
  with True show ?thesis by simp
next
  case False
  define D :: nat where "D = 10 ^ nat (- 2 - e)"
  define m where "m = round_half_even_div (nat \<bar>c\<bar>) D"
  have D: "0 < D" unfolding D_def by simp
  from assms False have h: "h = (if c < 0 then - int m else int m)"
    by (auto simp: quantize2_def Let_def m_def D_def split: if_splits)
  have iD: "(10::int) ^ nat (- 2 - e) = int D" unfolding D_def by simp
  from round_half_even_div_spec [OF D, of "nat \<bar>c\<bar>"]
  have spec: "2 * \<bar>int m * int D - \<bar>c\<bar>\<bar> \<le> int D"
      "2 * \<bar>int m * int D - \<bar>c\<bar>\<bar> = int D \<longrightarrow> even m"
    unfolding m_def by simp_all
  have eq: "\<bar>h * int D - c\<bar> = \<bar>int m * int D - \<bar>c\<bar>\<bar>"
    unfolding h by (cases "c < 0") auto
  have ev: "even h \<longleftrightarrow> even m" unfolding h by simp
  from spec eq ev False show ?thesis unfolding iD by simp
qed

lemma check_row_Inr:
  assumes "check_row s i r = Inr p"
  shows "\<exists>d. cell_date (row_period r) = Some d \<and> day d = 1 \<and>
           row_sum r \<noteq> SumNA \<and> parse_amount (row_sum r) = Inr (pd_sum p) \<and>
           pd_period p = d \<and>
           get_category_id_by_name s (strip (row_category_name r)) = Some (pd_category_id p) \<and>
           pd_category_id p \<noteq> 0 \<and>
           get_plan_by_date_and_category s d (pd_category_id p) = None"
  using assms
  by (auto simp: check_row_def Let_def split: option.splits if_splits sum.splits)

lemma parse_amount_Inr:
  assumes "parse_amount cell = Inr x"
  shows "(\<exists>c e h. cell = SumFinite c e \<and> quantize2 c e = Inr h \<and> x = Fixed h) \<or>
         (\<exists>neg payload. cell = SumQuietNaN neg payload \<and> x = QNaN neg (fix_payload payload))"
  using assms
  by (auto simp: parse_amount_def split: sum_cell.splits sum.splits)

text \<open>
  What the import does guarantee about the sum. When the cell of an accepted row
  reads as a finite decimal \<open>c * 10 ^ e\<close>, the amount kept for storage is its
  rounding to two fractional digits, half to even: a function of the cell alone, at
  most half a hundredth away from it, and even in its last digit when exactly half a
  hundredth away. The row stored carries that amount. The sum 12.345 of the April row
  is kept as 12.34.
\<close>

lemma finite_sum_rounded_half_even:
  assumes "check_row s i r = Inr p" and "row_sum r = SumFinite c e"
  shows "\<exists>h. pd_sum p = Fixed h \<and> quantize2 c e = Inr h \<and>
           (- 2 \<le> e \<longrightarrow> h = c * 10 ^ nat (e + 2)) \<and>
           (e < - 2 \<longrightarrow>
              2 * \<bar>h * 10 ^ nat (- 2 - e) - c\<bar> \<le> 10 ^ nat (- 2 - e) \<and>
              (2 * \<bar>h * 10 ^ nat (- 2 - e) - c\<bar> = 10 ^ nat (- 2 - e) \<longrightarrow> even h)) \<and>
           plan_sum (last (write_rows table [p])) = Fixed h"
proof -
  from check_row_Inr [OF assms(1)] have "parse_amount (row_sum r) = Inr (pd_sum p)"
    by blast
  from parse_amount_Inr [OF this] assms(2) obtain h where
    h: "quantize2 c e = Inr h" "pd_sum p = Fixed h"
    by auto
  from h quantize2_spec [OF h(1)] show ?thesis by simp
qed

text \<open>
  Claim C7 says that the sum of every accepted row is rounded to exactly two
  fractional digits before storage. The validation relies on
  \<^verbatim>\<open>Decimal(str(cell)).quantize(...)\<close> raising for a cell that is no number, and a
  quiet NaN does not raise: here a row whose sum cell holds the text \<^verbatim>\<open>NAN\<close> passes
  every check, no message is collected, and the amount handed to the store is a NaN.
\<close>

theorem quiet_nan_sum_accepted:
  "check_row march_2024_db 0 nan_row =
     Inr \<lparr>pd_period = \<lparr>year = 2024, month = 4, day = 1\<rparr>, pd_sum = QNaN False 0,
          pd_category_id = 2\<rparr> \<and>
   process_rows march_2024_db 0 [nan_row] [] [] =
     ([], [\<lparr>pd_period = \<lparr>year = 2024, month = 4, day = 1\<rparr>, pd_sum = QNaN False 0,
            pd_category_id = 2\<rparr>])"
  by (simp add: nan_row_def march_2024_db_def import_eval store_eval)

text \<open>A target that is a NaN divides without an exception and prints as one.\<close>

lemma nan_target_rate: "completion_rate (Some 5000) (QNaN False 0) = Inr ''NaN%''"
  by (simp add: rate_eval)

lemma pending_foldl_add:
  "foldl session_add sess ps = \<lparr>pending = pending sess @ ps, written = written sess\<rparr>"
proof (induction ps arbitrary: sess)
  case Nil
  show ?case by simp
next
  case (Cons p ps)
  have "foldl session_add sess (p # ps) = foldl session_add (session_add sess p) ps"
    by simp
  also have "\<dots> = \<lparr>pending = pending (session_add sess p) @ ps,
                    written = written (session_add sess p)\<rparr>"
    by (rule Cons)
  also have "\<dots> = \<lparr>pending = pending sess @ p # ps, written = written sess\<rparr>"
    by (simp add: session_add_def)
  finally show ?case .
qed


lemma write_rows_append:
  "\<exists>new. write_rows table ps = table @ new \<and> map plan_data_of new = ps"
proof (induction ps arbitrary: table)
  case Nil
  show ?case by simp
next
  case (Cons p ps)
  define row where "row = \<lparr>plan_id = next_plan_id table, plan_period = pd_period p,
               plan_sum = pd_sum p, plan_category_id = pd_category_id p\<rparr>"
  have step: "write_rows table (p # ps) = write_rows (table @ [row]) ps"
    by (simp add: row_def)
  have data: "plan_data_of row = p"
    by (simp add: row_def plan_data_of_def)
  from Cons [of "table @ [row]"] obtain new where
    new: "write_rows (table @ [row]) ps = (table @ [row]) @ new" "map plan_data_of new = ps"
    by (elim exE conjE)
  have "write_rows table (p # ps) = table @ (row # new)"
    unfolding step new(1) by simp
  moreover have "map plan_data_of (row # new) = p # ps"
    using new(2) data by simp
  ultimately show ?case by (intro exI [of _ "row # new"] conjI)
qed


lemma bulk_insert_plans_ok:
  assumes "\<forall>k. fault = Some k \<longrightarrow> length ps < k"
  shows "bulk_insert_plans fault s ps =
           (Inr (), s\<lparr>plans := write_rows (plans s) ps\<rparr>, \<lparr>pending = [], written = []\<rparr>)"
proof (cases fault)
  case None
  then show ?thesis
    by (simp add: bulk_insert_plans_def pending_foldl_add session_commit_def commit_rows_def)
next
  case (Some k)
  with assms have "\<not> k \<le> length ps" by simp
  with Some show ?thesis
    by (simp add: bulk_insert_plans_def pending_foldl_add session_commit_def commit_rows_def)
qed

lemma bulk_insert_plans_fail:
  assumes "fault = Some k" and "k \<le> length ps"
  shows "bulk_insert_plans fault s ps =
           (Inl (HTTPException 500 StoreSaveError), s, \<lparr>pending = [], written = []\<rparr>)"
  using assms
  by (simp add: bulk_insert_plans_def pending_foldl_add session_commit_def fail_after_def
      session_rollback_def)

lemma import_plans_rejected:
  assumes "[e. Inl e \<leftarrow> row_results s 0 rows] \<noteq> []"
  shows "import_plans fault s rows =
           (Inl (HTTPException 400 (RowErrors [e. Inl e \<leftarrow> row_results s 0 rows])), s)"
  using assms by (simp add: import_plans_def process_rows_eq)

lemma import_plans_accepted:
  assumes "[e. Inl e \<leftarrow> row_results s 0 rows] = []"
  shows "import_plans fault s rows =
           (case bulk_insert_plans fault s [p. Inr p \<leftarrow> row_results s 0 rows] of
              (Inl f, s', sess) \<Rightarrow> (Inl f, s')
            | (Inr u, s', sess) \<Rightarrow> (Inr (length [p. Inr p \<leftarrow> row_results s 0 rows]), s'))"
  using assms by (simp add: import_plans_def process_rows_eq)


text \<open>
  Claim C1: the import is all or nothing. If at least one row fails a check, the
  store is left as it was and the caller gets the messages of all failing rows, in
  row order. If no row fails and the store does not fail, exactly as many plans as
  there are rows are appended to the table, carrying the validated data in row
  order. If no row fails and the store fails during the commit, the rows written so
  far are rolled back: the store is left as it was, the session is empty, and the
  caller gets the store-failure error.
\<close>

theorem import_plans_all_or_nothing:
  "((\<exists>x \<in> set (row_results s 0 rows). isl x) \<longrightarrow>
      import_plans fault s rows =
        (Inl (HTTPException 400 (RowErrors [e. Inl e \<leftarrow> row_results s 0 rows])), s)) \<and>
   ((\<forall>x \<in> set (row_results s 0 rows). \<not> isl x) \<and>
    (\<forall>k. fault = Some k \<longrightarrow> length rows < k) \<longrightarrow>
      (\<exists>new. import_plans fault s rows = (Inr (length rows), s\<lparr>plans := plans s @ new\<rparr>) \<and>
             length new = length rows \<and>
             map plan_data_of new = [p. Inr p \<leftarrow> row_results s 0 rows])) \<and>
   ((\<forall>x \<in> set (row_results s 0 rows). \<not> isl x) \<and>
    (\<exists>k. fault = Some k \<and> k \<le> length rows) \<longrightarrow>
      import_plans fault s rows = (Inl (HTTPException 500 StoreSaveError), s) \<and>
      snd (snd (bulk_insert_plans fault s [p. Inr p \<leftarrow> row_results s 0 rows])) =
        \<lparr>pending = [], written = []\<rparr>)"
proof (intro conjI impI)
  assume "\<exists>x \<in> set (row_results s 0 rows). isl x"
  then have "[e. Inl e \<leftarrow> row_results s 0 rows] \<noteq> []"
    using lefts_empty_iff [of "row_results s 0 rows"] by simp
  then show "import_plans fault s rows =
        (Inl (HTTPException 400 (RowErrors [e. Inl e \<leftarrow> row_results s 0 rows])), s)"
    by (rule import_plans_rejected)
next
  define batch where "batch = [p. Inr p \<leftarrow> row_results s 0 rows]"
  assume h: "(\<forall>x \<in> set (row_results s 0 rows). \<not> isl x) \<and>
             (\<forall>k. fault = Some k \<longrightarrow> length rows < k)"
  then have none: "[e. Inl e \<leftarrow> row_results s 0 rows] = []"
    using lefts_empty_iff [of "row_results s 0 rows"] by simp
  from h have len: "length batch = length rows"
    unfolding batch_def using rights_all [of "row_results s 0 rows"]
    by (simp add: length_row_results)
  with h have nofault: "\<forall>k. fault = Some k \<longrightarrow> length batch < k" by simp
  obtain new where new: "write_rows (plans s) batch = plans s @ new"
      "map plan_data_of new = batch"
    using write_rows_append [of "plans s" batch] by (elim exE conjE)
  have l: "length new = length rows"
    using new(2) len by (metis length_map)
  have "import_plans fault s rows = (Inr (length rows), s\<lparr>plans := plans s @ new\<rparr>)"
    unfolding import_plans_accepted [OF none] batch_def [symmetric]
      bulk_insert_plans_ok [OF nofault] new(1) len
    by simp
  with l new(2) show "\<exists>new. import_plans fault s rows =
             (Inr (length rows), s\<lparr>plans := plans s @ new\<rparr>) \<and>
             length new = length rows \<and>
             map plan_data_of new = [p. Inr p \<leftarrow> row_results s 0 rows]"
    unfolding batch_def by (intro exI [of _ new] conjI)
next
  define batch where "batch = [p. Inr p \<leftarrow> row_results s 0 rows]"
  assume h: "(\<forall>x \<in> set (row_results s 0 rows). \<not> isl x) \<and>
             (\<exists>k. fault = Some k \<and> k \<le> length rows)"
  then have none: "[e. Inl e \<leftarrow> row_results s 0 rows] = []"
    using lefts_empty_iff [of "row_results s 0 rows"] by simp
  from h have len: "length batch = length rows"
    unfolding batch_def using rights_all [of "row_results s 0 rows"]
    by (simp add: length_row_results)
  from h obtain k where k: "fault = Some k" "k \<le> length rows" by (elim conjE exE)
  from k(2) len have kb: "k \<le> length batch" by simp
  note fail = bulk_insert_plans_fail [OF k(1) kb, of s]
  show "import_plans fault s rows = (Inl (HTTPException 500 StoreSaveError), s)"
    unfolding import_plans_accepted [OF none] batch_def [symmetric] fail by simp
  show "snd (snd (bulk_insert_plans fault s [p. Inr p \<leftarrow> row_results s 0 rows])) =
        \<lparr>pending = [], written = []\<rparr>"
    unfolding batch_def [symmetric] fail by simp
qed


lemma row_results_bad_april:
  "row_results march_2024_db 0 [bad_day_row, april_row] =
     [Inl (NotFirstOfMonth 1),
      Inr \<lparr>pd_period = \<lparr>year = 2024, month = 4, day = 1\<rparr>, pd_sum = Fixed 1234, pd_category_id = 2\<rparr>]"
  by (simp add: row_results_Cons row_results_Nil check_bad_day_row check_april_row)

lemma row_results_april:
  "row_results march_2024_db 0 [april_row] =
     [Inr \<lparr>pd_period = \<lparr>year = 2024, month = 4, day = 1\<rparr>, pd_sum = Fixed 1234, pd_category_id = 2\<rparr>]"
  by (simp add: row_results_Cons row_results_Nil check_april_row)

theorem import_plans_all_or_nothing_witness:
  "import_plans None march_2024_db [bad_day_row, april_row] =
     (Inl (HTTPException 400 (RowErrors [NotFirstOfMonth 1])), march_2024_db) \<and>
   (\<exists>new. import_plans None march_2024_db [april_row] =
            (Inr 1, march_2024_db\<lparr>plans := plans march_2024_db @ new\<rparr>) \<and>
          length new = 1 \<and>
          map plan_data_of new =
            [\<lparr>pd_period = \<lparr>year = 2024, month = 4, day = 1\<rparr>, pd_sum = Fixed 1234,
              pd_category_id = 2\<rparr>]) \<and>
   import_plans (Some 0) march_2024_db [april_row] =
     (Inl (HTTPException 500 StoreSaveError), march_2024_db)"
proof -
  have a: "import_plans None march_2024_db [bad_day_row, april_row] =
     (Inl (HTTPException 400 (RowErrors [NotFirstOfMonth 1])), march_2024_db)"
    using import_plans_all_or_nothing [of march_2024_db "[bad_day_row, april_row]" None]
    by (simp add: row_results_bad_april)
  have b: "\<exists>new. import_plans None march_2024_db [april_row] =
            (Inr 1, march_2024_db\<lparr>plans := plans march_2024_db @ new\<rparr>) \<and>
          length new = 1 \<and>
          map plan_data_of new =
            [\<lparr>pd_period = \<lparr>year = 2024, month = 4, day = 1\<rparr>, pd_sum = Fixed 1234,
              pd_category_id = 2\<rparr>]"
    using import_plans_all_or_nothing [of march_2024_db "[april_row]" None]
    by (simp add: row_results_april)
  have c: "import_plans (Some 0) march_2024_db [april_row] =
     (Inl (HTTPException 500 StoreSaveError), march_2024_db)"
    using import_plans_all_or_nothing [of march_2024_db "[april_row]" "Some 0"]
    by (simp add: row_results_april)
  from a b c show ?thesis by (intro conjI)
qed


section \<open>The uniqueness of plans\<close>

text \<open>
  What the import does guarantee. A row is accepted only if the store holds no plan
  for its period and category, so a second import of a plan that a first import
  committed is rejected; and a batch whose accepted rows have pairwise different
  (period, category) pairs keeps the stored pairs distinct.
\<close>

lemma first_row_None: "first_row xs = None \<longleftrightarrow> xs = []"
  by (cases xs) (simp_all add: first_row_def)

lemma accepted_key_is_new:
  assumes "check_row s i r = Inr p"
  shows "(pd_period p, pd_category_id p) \<notin> set (plan_keys s)"
proof -
  from check_row_Inr [OF assms]
  have "get_plan_by_date_and_category s (pd_period p) (pd_category_id p) = None"
    by auto
  then have "\<forall>q \<in> set (plans s).
      \<not> (plan_period q = pd_period p \<and> plan_category_id q = pd_category_id p)"
    by (simp add: get_plan_by_date_and_category_def first_row_None filter_empty_conv)
  then show ?thesis
    by (auto simp: plan_keys_def)
qed

lemma batch_keys_are_new:
  "p \<in> set [p. Inr p \<leftarrow> row_results s i rows] \<Longrightarrow>
   (pd_period p, pd_category_id p) \<notin> set (plan_keys s)"
proof (induction rows arbitrary: i)
  case Nil
  then show ?case by (simp add: row_results_Nil)
next
  case (Cons r rows)
  show ?case
  proof (cases "check_row s i r")
    case (Inl e)
    with Cons show ?thesis by (simp add: row_results_Cons)
  next
    case (Inr q)
    with Cons accepted_key_is_new [OF Inr] show ?thesis
      by (auto simp: row_results_Cons)
  qed
qed

lemma import_plans_store:
  "snd (import_plans fault s rows) = s \<or>
   (\<exists>new. snd (import_plans fault s rows) = s\<lparr>plans := plans s @ new\<rparr> \<and>
          map plan_data_of new = [p. Inr p \<leftarrow> row_results s 0 rows])"
proof (cases "[e. Inl e \<leftarrow> row_results s 0 rows] = []")
  case False
  then show ?thesis by (simp add: import_plans_rejected)
next
  case True
  define batch where "batch = [p. Inr p \<leftarrow> row_results s 0 rows]"
  show ?thesis
  proof (cases "\<exists>k. fault = Some k \<and> k \<le> length batch")
    case True
    then obtain k where k: "fault = Some k" "k \<le> length batch" by (elim exE conjE)
    show ?thesis
      unfolding import_plans_accepted [OF \<open>[e. Inl e \<leftarrow> row_results s 0 rows] = []\<close>]
        batch_def [symmetric] bulk_insert_plans_fail [OF k]
      by simp
  next
    case False
    then have nofault: "\<forall>k. fault = Some k \<longrightarrow> length batch < k" by auto
    obtain new where new: "write_rows (plans s) batch = plans s @ new"
        "map plan_data_of new = batch"
      using write_rows_append [of "plans s" batch] by (elim exE conjE)
    have "snd (import_plans fault s rows) = s\<lparr>plans := plans s @ new\<rparr>"
      unfolding import_plans_accepted [OF True] batch_def [symmetric]
        bulk_insert_plans_ok [OF nofault] new(1)
      by simp
    with new(2) show ?thesis unfolding batch_def by (intro disjI2 exI [of _ new] conjI)
  qed
qed

lemma import_preserves_distinct_keys:
  assumes "distinct (plan_keys s)"
    and "distinct (map (\<lambda>p. (pd_period p, pd_category_id p))
           [p. Inr p \<leftarrow> row_results s 0 rows])"
  shows "distinct (plan_keys (snd (import_plans fault s rows)))"
proof -
  define batch where "batch = [p. Inr p \<leftarrow> row_results s 0 rows]"
  from import_plans_store [of fault s rows]
  consider "snd (import_plans fault s rows) = s"
    | new where "snd (import_plans fault s rows) = s\<lparr>plans := plans s @ new\<rparr>"
        "map plan_data_of new = batch"
    unfolding batch_def by (elim disjE exE conjE)
  then show ?thesis
  proof cases
    case 1
    with assms(1) show ?thesis by simp
  next
    case 2
    have keys: "map (\<lambda>p. (plan_period p, plan_category_id p)) new =
                map (\<lambda>p. (pd_period p, pd_category_id p)) batch"
      unfolding 2(2) [symmetric] by (simp add: plan_data_of_def)
    have new_keys: "\<forall>k \<in> set (map (\<lambda>p. (pd_period p, pd_category_id p)) batch).
                      k \<notin> set (plan_keys s)"
      unfolding batch_def using batch_keys_are_new [of _ s 0 rows] by auto
    have "plan_keys (s\<lparr>plans := plans s @ new\<rparr>) =
            plan_keys s @ map (\<lambda>p. (pd_period p, pd_category_id p)) batch"
      by (simp add: plan_keys_def keys)
    with assms new_keys show ?thesis
      unfolding 2(1) batch_def [symmetric] by auto
  qed
qed

lemma first_import_accepted:
  "import_plans None march_2024_db [april_row] =
     (Inr 1,
      march_2024_db\<lparr>plans := plans march_2024_db @
        [\<lparr>plan_id = 3, plan_period = \<lparr>year = 2024, month = 4, day = 1\<rparr>,
          plan_sum = Fixed 1234, plan_category_id = 2\<rparr>]\<rparr>)"
proof -
  have "process_rows march_2024_db 0 [april_row] [] [] =
          ([], [\<lparr>pd_period = \<lparr>year = 2024, month = 4, day = 1\<rparr>, pd_sum = Fixed 1234,
                  pd_category_id = 2\<rparr>])"
    by (simp add: check_april_row)
  then show ?thesis
    by (simp add: import_plans_def bulk_insert_plans_def session_add_def session_commit_def
        commit_rows_def next_plan_id_def march_2024_db_def)
qed

lemma second_import_rejected:
  "import_plans fault (snd (import_plans None march_2024_db [april_row])) [april_row] =
     (Inl (HTTPException 400
        (RowErrors [PlanExists 1 \<lparr>year = 2024, month = 4, day = 1\<rparr> COLLECTION])),
      snd (import_plans None march_2024_db [april_row]))"
proof -
  have "check_row (snd (import_plans None march_2024_db [april_row])) 0 april_row =
          Inl (PlanExists 1 \<lparr>year = 2024, month = 4, day = 1\<rparr> COLLECTION)"
    unfolding first_import_accepted
    by (simp add: april_row_def march_2024_db_def import_eval store_eval)
  then show ?thesis
    by (simp add: import_plans_def)
qed

lemma import_april_twice:
  "import_plans None march_2024_db [april_row, april_row] =
     (Inr 2,
      march_2024_db\<lparr>plans := plans march_2024_db @
        [\<lparr>plan_id = 3, plan_period = \<lparr>year = 2024, month = 4, day = 1\<rparr>,
          plan_sum = Fixed 1234, plan_category_id = 2\<rparr>,
         \<lparr>plan_id = 4, plan_period = \<lparr>year = 2024, month = 4, day = 1\<rparr>,
          plan_sum = Fixed 1234, plan_category_id = 2\<rparr>]\<rparr>)"
proof -
  have "process_rows march_2024_db 0 [april_row, april_row] [] [] =
          ([], [\<lparr>pd_period = \<lparr>year = 2024, month = 4, day = 1\<rparr>, pd_sum = Fixed 1234,
                  pd_category_id = 2\<rparr>,
                \<lparr>pd_period = \<lparr>year = 2024, month = 4, day = 1\<rparr>, pd_sum = Fixed 1234,
                  pd_category_id = 2\<rparr>])"
    by (simp add: check_april_row)
  then show ?thesis
    by (simp add: import_plans_def bulk_insert_plans_def session_add_def session_commit_def
        commit_rows_def next_plan_id_def march_2024_db_def)
qed

text \<open>
  Claim C2 says that every accepted batch keeps at most one plan for each (period,
  category) pair. The rows are checked against the store only, not against each
  other: here a sheet with the same row twice is accepted on a store whose pairs are
  distinct, two records are reported, and the store then holds two plans for April
  2024 in the collection category.
\<close>

theorem duplicate_rows_in_one_batch:
  "distinct (plan_keys march_2024_db) \<and>
   fst (import_plans None march_2024_db [april_row, april_row]) = Inr 2 \<and>
   \<not> distinct (plan_keys (snd (import_plans None march_2024_db [april_row, april_row])))"
  by (simp add: import_april_twice plan_keys_def) (simp add: march_2024_db_def)


section \<open>Properties of the year performance\<close>

lemmas date_eval = mk_date_def valid_date_def MINYEAR_def MAXYEAR_def days_in_month_def
  is_leap_def incr_month_def

lemmas year_eval = get_year_plans_def group_append_def get_month_sum_issued_loans_def
  get_month_sum_payments_def get_amount_of_loans_def get_amount_of_payments_def
  credits_of_month_def payments_of_month_def or_0_def month_vars_init_def year_entry_def

lemma year_plans_collection_only:
  "get_year_plans collection_only_db 2024 =
     Inr [(\<lparr>year = 2024, month = 3, day = 1\<rparr>,
           [\<lparr>plan_id = 2, plan_period = \<lparr>year = 2024, month = 3, day = 1\<rparr>,
             plan_sum = Fixed 800000, plan_category_id = 2\<rparr>])]"
  by (simp add: collection_only_db_def march_2024_db_def year_eval date_eval store_eval)

text \<open>
  Claim C3 says that the completion rates of a month divide by a target that defaults
  to 1 when the month has no plan of the category, so that no division by zero
  occurs. The targets start at 0 and are divided by as they are: here the year has a
  collection plan for March and no issuance plan, and the request ends in
  \<^verbatim>\<open>ZeroDivisionError\<close>.
\<close>

theorem year_performance_without_issuance_plan:
  "get_year_performance collection_only_db 2024 = Inl (Unhandled ZeroDivisionError)"
  by (simp add: get_year_performance_def year_plans_collection_only)
     (simp add: collection_only_db_def march_2024_db_def year_eval date_eval store_eval)

lemma year_plans_other_category:
  "get_year_plans other_category_db 2024 =
     Inr [(\<lparr>year = 2024, month = 3, day = 1\<rparr>,
           [\<lparr>plan_id = 3, plan_period = \<lparr>year = 2024, month = 3, day = 1\<rparr>,
             plan_sum = Fixed 500000, plan_category_id = 3\<rparr>])]"
  by (simp add: other_category_db_def march_2024_db_def year_eval date_eval store_eval)

text \<open>
  Claim C5 says that in the first pass a plan of a category other than issuance and
  collection adds to neither annual total. The pass tests for the issuance category
  and treats every other plan as a collection plan: here the only plan of the year
  has another category, and the payments of its month, 8200, are the annual
  collection total.
\<close>

theorem other_category_plan_adds_to_collection_total:
  "get_category_name_by_id other_category_db 3 = Some (ascii ''other'') \<and>
   ascii ''other'' \<noteq> ISSUANCE \<and> ascii ''other'' \<noteq> COLLECTION \<and>
   year_totals other_category_db
     [(\<lparr>year = 2024, month = 3, day = 1\<rparr>,
       [\<lparr>plan_id = 3, plan_period = \<lparr>year = 2024, month = 3, day = 1\<rparr>,
         plan_sum = Fixed 500000, plan_category_id = 3\<rparr>])] (Int0, Int0) =
     Inr (Int0, Dec 820000)"
  by (simp add: other_category_db_def march_2024_db_def year_eval date_eval store_eval ascii_def)

text \<open>The year 2024 of the example store, where March has both plans.\<close>

lemma year_performance_march_2024:
  "get_year_performance march_2024_db 2024 =
     Inr [\<lparr>ys_month = 3, ys_year = 2024,
           ys_issued_loans_count = 1,
           ys_plan_sum_issued_loans = Dec 1000000,
           ys_sum_issued_loans = Dec 600000,
           ys_plan_issued_completion_rate = ''60.00%'',
           ys_payments_count = 1,
           ys_plan_sum_payments = Dec 800000,
           ys_sum_payments = Dec 820000,
           ys_plan_payments_completion_rate = ''102.50%'',
           ys_monthly_issued_percent_of_year = ''100.00%'',
           ys_monthly_payment_percent_of_year = ''100.00%''\<rparr>]"
proof -
  have g: "get_year_plans march_2024_db 2024 =
     Inr [(\<lparr>year = 2024, month = 3, day = 1\<rparr>, plans march_2024_db)]"
    by (simp add: march_2024_db_def year_eval date_eval store_eval)
  show ?thesis
    by (simp add: get_year_performance_def g)
       (simp add: march_2024_db_def year_eval date_eval store_eval rate_eval)
qed


end
